theory Spec2Isabelle
  imports Main "HOL-Library.Sublist"
begin

section \<open>Python strings\<close>

text \<open>
  A Python \<open>str\<close> is a sequence of Unicode code points, and \<open>in\<close>, \<open>+\<close>,
  slicing and \<open>len\<close> work on code points. A string is therefore a list of
  code points (natural numbers). ASCII text is written \<open>ascii ''...''\<close>; the
  Chinese words and the emoji of the source are written as their code points, with the
  meaning given beside them.
\<close>

type_synonym pystr = "nat list"

definition ascii :: "string \<Rightarrow> pystr" where
  "ascii s = map of_char s"

text \<open>The decimal rendering of an integer, as \<open>str\<close> and an f-string give it.\<close>

fun digits :: "nat \<Rightarrow> pystr" where
  "digits n = (if n < 10 then [48 + n] else digits (n div 10) @ [48 + n mod 10])"

declare digits.simps [simp del]

definition str_int :: "int \<Rightarrow> pystr" where
  "str_int i = (if i < 0 then 45 # digits (nat (- i)) else digits (nat i))"

section \<open>Configuration (config.py)\<close>

text \<open>
  The fields of \<open>AgentConfig\<close> that the modelled functions read. The floating point
  and integer generation parameters (temperature, context size, timeouts) are passed
  through to the client libraries without being inspected and are left out.
\<close>

record AgentConfig =
  llm_backend :: pystr
  llm_api_key :: "pystr option"
  llm_base_url :: "pystr option"
  llm_model_name :: pystr
  ollama_base_url :: pystr
  ollama_main_model :: pystr
  ollama_advisor_model :: pystr

section \<open>Model handles and their creation (model.py, model\_ollama.py)\<close>

text \<open>
  A model handle is a Python object; what matters about it is its identity. Objects live
  in a store, a handle is the address of its object, and creating an object allocates the
  next free address. The log written by \<open>log_system_event\<close> is the second part of
  the state.
\<close>

datatype chat_model =
    ChatOllama pystr pystr        \<comment> \<open>base url, model\<close>
  | ChatDeepSeek "pystr option" pystr   \<comment> \<open>api base, model\<close>
  | ChatOpenAI pystr pystr        \<comment> \<open>base url, model\<close>

type_synonym handle = nat

record state =
  objects :: "chat_model list"
  log :: "pystr list"

definition new :: "chat_model \<Rightarrow> state \<Rightarrow> handle \<times> state" where
  "new obj st = (length (objects st), st\<lparr>objects := objects st @ [obj]\<rparr>)"

text \<open>
  Modelled from the spec: \<open>log_system_event\<close> of \<open>chying_agent.common\<close>, which is not
  among the sources. The spec calls it an informational log emission; it appends the
  message to the log. The payload dictionary of an event is not kept.
\<close>

definition log_system_event :: "pystr \<Rightarrow> state \<Rightarrow> state" where
  "log_system_event msg st = st\<lparr>log := log st @ [msg]\<rparr>"

text \<open>
  What the functions read from outside the program: the process environment, whether
  \<open>langchain_ollama\<close> can be imported, whether the constructor of a client library
  accepts its arguments, and the answer of the Ollama server to \<open>GET /api/tags\<close>
  (\<open>None\<close> when the request fails, otherwise the names of the models it lists).
\<close>

record world =
  environ :: "pystr \<rightharpoonup> pystr"
  ollama_importable :: bool
  constructs :: "chat_model \<Rightarrow> bool"
  ollama_tags :: "pystr \<Rightarrow> pystr list option"

datatype error = ImportError | ConnectionError | ClientError

definition getenv :: "world \<Rightarrow> pystr \<Rightarrow> pystr \<Rightarrow> pystr" where
  "getenv w k d = (case environ w k of None \<Rightarrow> d | Some v \<Rightarrow> v)"

text \<open>
  \<open>_verify_ollama_connection\<close> (the leading underscore of a Python name is written
  \<open>u_\<close>). A failed request raises \<open>ConnectionError\<close>; a model the server does not
  list is only a warning.
\<close>

definition u_verify_ollama_connection :: "world \<Rightarrow> pystr \<Rightarrow> pystr \<Rightarrow> state \<Rightarrow> error + state" where
  "u_verify_ollama_connection w base_url model st =
     (case ollama_tags w base_url of
        None \<Rightarrow> Inl ConnectionError
      | Some model_names \<Rightarrow>
          if model \<notin> set model_names
          then Inr (log_system_event
                 ([9888, 65039, 32, 35686, 21578, 65306, 27169, 22411, 32, 39] @ model
                    @ [39, 32, 26410, 25214, 21040]) st)
          else Inr (log_system_event
                 ([9989] @ ascii '' Ollama '' @ [27169, 22411, 32, 39] @ model
                    @ [39, 32, 39564, 35777, 25104, 21151]) st))"

text \<open>
  \<open>create_ollama_model\<close>: every exception of the constructor or of the connection
  check is turned into \<open>ConnectionError\<close>. A raised exception ends the construction of
  the session; the log written before it is not kept.
\<close>

definition create_ollama_model :: "world \<Rightarrow> pystr \<Rightarrow> pystr \<Rightarrow> state \<Rightarrow> error + handle \<times> state" where
  "create_ollama_model w base_url model st =
     (if \<not> ollama_importable w then Inl ImportError
      else let st1 = log_system_event
                  ([9989, 32, 21019, 24314] @ ascii '' Ollama '' @ [27169, 22411, 23454, 20363]) st
           in if \<not> constructs w (ChatOllama base_url model) then Inl ConnectionError
              else let (model_instance, st2) = new (ChatOllama base_url model) st1
                   in case u_verify_ollama_connection w base_url model st2 of
                        Inl e \<Rightarrow> Inl ConnectionError
                      | Inr st3 \<Rightarrow> Inr (model_instance, st3))"

definition u_create_ollama_model :: "world \<Rightarrow> AgentConfig \<Rightarrow> state \<Rightarrow> error + handle \<times> state" where
  "u_create_ollama_model w config st =
     (case create_ollama_model w (ollama_base_url config) (ollama_main_model config) st of
        Inl e \<Rightarrow> Inl e
      | Inr (model, st1) \<Rightarrow>
          Inr (model, log_system_event
                 ([9989, 32, 21019, 24314] @ ascii '' Ollama '' @ [20027, 25915, 25163, 27169, 22411])
                 st1))"

definition u_create_api_model :: "world \<Rightarrow> AgentConfig \<Rightarrow> state \<Rightarrow> error + handle \<times> state" where
  "u_create_api_model w config st =
     (let obj = ChatDeepSeek (llm_base_url config) (llm_model_name config)
      in if \<not> constructs w obj then Inl ClientError
         else let (model, st1) = new obj st
              in Inr (model, log_system_event
                   ([9989, 32, 21019, 24314] @ ascii '' DeepSeek API '' @ [27169, 22411]) st1))"

definition create_model :: "world \<Rightarrow> AgentConfig \<Rightarrow> state \<Rightarrow> error + handle \<times> state" where
  "create_model w config st =
     (if llm_backend config = ascii ''ollama''
      then u_create_ollama_model w config st
      else u_create_api_model w config st)"

definition create_advisor_model :: "world \<Rightarrow> AgentConfig \<Rightarrow> state \<Rightarrow> error + handle \<times> state" where
  "create_advisor_model w config st =
     (if llm_backend config = ascii ''ollama''
      then (case create_ollama_model w (ollama_base_url config) (ollama_advisor_model config) st of
              Inl e \<Rightarrow> Inl e
            | Inr (model, st1) \<Rightarrow>
                Inr (model, log_system_event
                       ([9989, 32, 21019, 24314] @ ascii '' Ollama '' @ [39038, 38382, 27169, 22411])
                       st1))
      else (let obj = ChatOpenAI
                  (getenv w (ascii ''SILICONFLOW_BASE_URL'') (ascii ''https://api.siliconflow.cn/v1''))
                  (getenv w (ascii ''SILICONFLOW_MODEL'') (ascii ''MiniMaxAI/MiniMax-M2''))
            in if \<not> constructs w obj then Inl ClientError
               else let (model, st1) = new obj st
                    in Inr (model, log_system_event
                         ([9989, 32, 21019, 24314] @ ascii '' MiniMax API '' @ [39038, 38382, 27169, 22411])
                         st1)))"

section \<open>The retry strategy (retry\_strategy.py)\<close>

record RetryStrategy =
  config :: AgentConfig
  main_llm :: handle
  advisor_llm :: handle

text \<open>\<open>RetryStrategy.__init__\<close>: both handles are created once, here.\<close>

definition init :: "world \<Rightarrow> AgentConfig \<Rightarrow> state \<Rightarrow> error + RetryStrategy \<times> state" where
  "init w cfg st =
     (case create_model w cfg st of
        Inl e \<Rightarrow> Inl e
      | Inr (m, st1) \<Rightarrow>
          (case create_advisor_model w cfg st1 of
             Inl e \<Rightarrow> Inl e
           | Inr (a, st2) \<Rightarrow>
               Inr (\<lparr>config = cfg, main_llm = m, advisor_llm = a\<rparr>,
                    log_system_event
                      ([91, 37325, 35797, 31574, 30053, 93, 32, 21021, 22987, 21270, 23436, 25104])
                      st2)))"

text \<open>
  \<open>get_llm_pair\<close>. The words of the description: U+4E3B is "primary", U+987E U+95EE is
  "advisor", U+91CD U+8BD5 is "retry". Python's \<open>%\<close> with a positive divisor gives a
  result in \<open>{0, 1}\<close> for every integer, as \<open>mod\<close> on \<open>int\<close> does. The method reads
  \<open>self\<close> and does not assign to it.
\<close>

definition get_llm_pair :: "RetryStrategy \<Rightarrow> int \<Rightarrow> state \<Rightarrow> (handle \<times> handle \<times> pystr) \<times> state" where
  "get_llm_pair self retry_count st =
     (let (main_name, advisor_name) =
            (if llm_backend (config self) = ascii ''ollama''
             then (ollama_main_model (config self), ollama_advisor_model (config self))
             else (ascii ''DeepSeek'', ascii ''MiniMax''));
          is_even = (retry_count mod 2 = 0)
      in if is_even
         then let strategy_desc = main_name @ ascii '' ('' @ [20027] @ ascii '') + '' @ advisor_name
                                    @ ascii '' ('' @ [39038, 38382] @ ascii '')'';
                  strategy_desc = (if retry_count > 0
                                   then strategy_desc @ ascii '' ['' @ [37325, 35797] @ ascii '' ''
                                          @ str_int retry_count @ ascii '']''
                                   else strategy_desc)
              in ((main_llm self, advisor_llm self, strategy_desc), st)
         else ((advisor_llm self, main_llm self,
                advisor_name @ ascii '' ('' @ [20027] @ ascii '') + '' @ main_name
                  @ ascii '' ('' @ [39038, 38382] @ ascii '') ['' @ [37325, 35797] @ ascii '' ''
                  @ str_int retry_count @ ascii '']''),
               log_system_event
                 ([91, 37325, 35797, 31574, 30053, 93, 32, 128260, 32, 35282, 33394, 20114, 25442, 65306]
                    @ advisor_name @ [32, 20316, 20026, 20027] @ ascii '' Agent'')
                 st))"

text \<open>The three components of the tuple that \<open>get_llm_pair\<close> returns.\<close>

definition primary :: "(handle \<times> handle \<times> pystr) \<times> state \<Rightarrow> handle" where
  "primary r = fst (fst r)"

definition advisor :: "(handle \<times> handle \<times> pystr) \<times> state \<Rightarrow> handle" where
  "advisor r = fst (snd (fst r))"

definition description :: "(handle \<times> handle \<times> pystr) \<times> state \<Rightarrow> pystr" where
  "description r = snd (snd (fst r))"

section \<open>String operations of the attempt recorder\<close>

text \<open>
  \<open>s.lower()\<close>. CPython lowers a string of ASCII characters letter by letter
  (\<open>A\<close> to \<open>Z\<close> become \<open>a\<close> to \<open>z\<close>) and any other string through the case tables
  of the Unicode database. Those tables are not part of the repository: the lowering of
  a string with a character outside ASCII is the parameter \<open>unicode_lower\<close>.
\<close>

definition ascii_lower :: "nat \<Rightarrow> nat" where
  "ascii_lower c = (if 65 \<le> c \<and> c \<le> 90 then c + 32 else c)"

definition lower :: "(pystr \<Rightarrow> pystr) \<Rightarrow> pystr \<Rightarrow> pystr" where
  "lower unicode_lower s =
     (if list_all (\<lambda>c. c < 128) s then map ascii_lower s else unicode_lower s)"

text \<open>\<open>keyword in s\<close>: a search for \<open>keyword\<close> at every position of \<open>s\<close>.\<close>

fun py_in :: "pystr \<Rightarrow> pystr \<Rightarrow> bool" where
  "py_in keyword [] = (keyword = [])"
| "py_in keyword (c # cs) = (prefix keyword (c # cs) \<or> py_in keyword cs)"

text \<open>
  The keyword list of \<open>extract_attempt_summary\<close>: U+5931 U+8D25 ("failure"),
  U+9519 U+8BEF ("mistake"), \<open>error\<close>, \<open>failed\<close>.
\<close>

definition failure_keywords :: "pystr list" where
  "failure_keywords = [[22833, 36133], [38169, 35823], ascii ''error'', ascii ''failed'']"

section \<open>Raw results and attempt summaries\<close>

text \<open>
  Both are Python dictionaries read with \<open>.get\<close>. A dictionary is a record of its
  keys (field \<open>k_name\<close> for the key \<open>"name"\<close>), each field optional: \<open>None\<close> is
  a key that is absent. The entries of the action log, the discovered facts, the tool calls
  and the start time are Python objects of a type \<open>'a\<close> that the code does not look
  into; it only renders them with \<open>str\<close>, which is a parameter of the model. A
  message is known by its \<open>tool_calls\<close> attribute, \<open>None\<close> when it has none.
\<close>

definition get :: "'v option \<Rightarrow> 'v \<Rightarrow> 'v" where
  "get field dflt = (case field of None \<Rightarrow> dflt | Some v \<Rightarrow> v)"

record 'a message =
  tool_calls :: "'a list option"

record 'a final_state =
  k_action_history :: "'a list option"
  k_messages :: "'a message list option"
  k_potential_vulnerabilities :: "'a list option"
  k_start_time :: "'a option"

record 'a attempt =
  k_strategy :: "pystr option"
  k_attempts :: "int option"
  k_failed_methods :: "pystr list option"
  k_key_findings :: "pystr list option"
  k_timestamp :: "'a option"

section \<open>The attempt recorder: extract\_attempt\_summary\<close>

text \<open>The loop over the action log, with the list \<open>failed_methods\<close> it appends to.\<close>

fun failed_loop :: "(pystr \<Rightarrow> pystr) \<Rightarrow> ('a \<Rightarrow> pystr) \<Rightarrow> 'a list \<Rightarrow> pystr list \<Rightarrow> pystr list" where
  "failed_loop unicode_lower str [] failed_methods = failed_methods"
| "failed_loop unicode_lower str (action # rest) failed_methods =
     failed_loop unicode_lower str rest
       (if list_ex (\<lambda>keyword. py_in keyword (lower unicode_lower (str action))) failure_keywords
        then failed_methods @ [str action]
        else failed_methods)"

text \<open>\<open>hasattr(m, 'tool_calls') and m.tool_calls\<close>: the attribute exists and is not empty.\<close>

definition has_tool_calls :: "'a message \<Rightarrow> bool" where
  "has_tool_calls m = (case tool_calls m of None \<Rightarrow> False | Some calls \<Rightarrow> calls \<noteq> [])"

definition extract_attempt_summary ::
    "(pystr \<Rightarrow> pystr) \<Rightarrow> ('a \<Rightarrow> pystr) \<Rightarrow> 'a final_state \<Rightarrow> pystr \<Rightarrow> 'a attempt" where
  "extract_attempt_summary unicode_lower str final_state strategy =
     (let action_history = get (k_action_history final_state) [];
          messages = get (k_messages final_state) [];
          failed_methods = failed_loop unicode_lower str action_history [];
          key_findings = get (k_potential_vulnerabilities final_state) [];
          attempts_count = length (filter has_tool_calls messages)
      in \<lparr>k_strategy = Some strategy,
          k_attempts = Some (int attempts_count),
          k_failed_methods = Some failed_methods,
          k_key_findings = Some (if key_findings \<noteq> [] then map str key_findings else []),
          k_timestamp = k_start_time final_state\<rparr>)"

section \<open>The history formatter: format\_attempt\_history\<close>

text \<open>
  The heading (U+1F4DC is a scroll; the Chinese reads "record of earlier attempts (please
  avoid repeating these failed methods)") and the closing note (U+26A0 U+FE0F is a warning
  sign; "important: all the methods above have failed, please try an entirely different
  angle of attack"), each ending in a newline.
\<close>

definition history_heading :: pystr where
  "history_heading = ascii ''## '' @ [128220] @ ascii '' ''
     @ [21382, 21490, 23581, 35797, 35760, 24405, 65288, 35831, 36991, 20813, 37325, 22797,
        36825, 20123, 22833, 36133, 30340, 26041, 27861, 65289, 10]"

definition closing_note :: pystr where
  "closing_note = ascii ''**'' @ [9888, 65039] @ ascii '' '' @ [37325, 35201, 25552, 31034]
     @ ascii ''**: ''
     @ [19978, 36848, 26041, 27861, 22343, 24050, 22833, 36133, 65292, 35831, 23581, 35797,
        23436, 20840, 19981, 21516, 30340, 25915, 20987, 35282, 24230, 65281, 10]"

text \<open>
  The two inner loops: one bullet line per entry, U+274C (a cross) before a failed method
  and U+1F4A1 (a light bulb) before a finding.
\<close>

fun failed_bullets :: "pystr list \<Rightarrow> pystr list \<Rightarrow> pystr list" where
  "failed_bullets [] formatted_parts = formatted_parts"
| "failed_bullets (method # rest) formatted_parts =
     failed_bullets rest
       (formatted_parts @ [ascii ''  - '' @ [10060] @ ascii '' '' @ method @ [10]])"

fun finding_bullets :: "pystr list \<Rightarrow> pystr list \<Rightarrow> pystr list" where
  "finding_bullets [] formatted_parts = formatted_parts"
| "finding_bullets (finding # rest) formatted_parts =
     finding_bullets rest
       (formatted_parts @ [ascii ''  - '' @ [128161] @ ascii '' '' @ finding @ [10]])"

text \<open>
  The body of the loop over the history, for the attempt numbered \<open>i\<close>. The labels are
  U+5C1D U+8BD5 ("attempt"), U+672A U+77E5 U+7B56 U+7565 ("unknown strategy"),
  U+5C1D U+8BD5 U+6B21 U+6570 ("number of attempts"), "methods that have failed" and
  "key findings".
\<close>

definition format_attempt :: "nat \<Rightarrow> 'a attempt \<Rightarrow> pystr list \<Rightarrow> pystr list" where
  "format_attempt i attempt formatted_parts =
     (let strategy = get (k_strategy attempt) [26410, 30693, 31574, 30053];
          attempts_count = get (k_attempts attempt) 0;
          failed_methods = get (k_failed_methods attempt) [];
          key_findings = get (k_key_findings attempt) [];
          formatted_parts = formatted_parts
            @ [ascii ''### '' @ [23581, 35797] @ ascii '' '' @ str_int (int i) @ [65306]
                 @ strategy @ [10]];
          formatted_parts = formatted_parts
            @ [ascii ''- **'' @ [23581, 35797, 27425, 25968] @ ascii ''**: ''
                 @ str_int attempts_count @ [10]];
          formatted_parts =
            (if failed_methods \<noteq> []
             then failed_bullets (take 10 failed_methods)
                    (formatted_parts
                       @ [ascii ''- **'' @ [24050, 22833, 36133, 30340, 26041, 27861]
                            @ ascii ''**:'' @ [10]])
             else formatted_parts);
          formatted_parts =
            (if key_findings \<noteq> []
             then finding_bullets (take 5 key_findings)
                    (formatted_parts
                       @ [ascii ''- **'' @ [20851, 38190, 21457, 29616] @ ascii ''**:'' @ [10]])
             else formatted_parts)
      in formatted_parts @ [[10]])"

text \<open>\<open>for i, attempt in enumerate(attempt_history, 1)\<close>.\<close>

fun format_loop :: "nat \<Rightarrow> 'a attempt list \<Rightarrow> pystr list \<Rightarrow> pystr list" where
  "format_loop i [] formatted_parts = formatted_parts"
| "format_loop i (attempt # rest) formatted_parts =
     format_loop (Suc i) rest (format_attempt i attempt formatted_parts)"

text \<open>The list \<open>formatted_parts\<close> when the function reaches its last line.\<close>

definition formatted_parts_of :: "'a attempt list \<Rightarrow> pystr list" where
  "formatted_parts_of attempt_history =
     format_loop 1 attempt_history [history_heading] @ [closing_note]"

definition format_attempt_history :: "'a attempt list \<Rightarrow> pystr" where
  "format_attempt_history attempt_history =
     (if attempt_history = [] then []
      else concat (formatted_parts_of attempt_history))"

section \<open>Notions used to state the properties\<close>

text \<open>
  The display names that \<open>get_llm_pair\<close> chooses from the backend, the label that joins
  a primary and an advisor name, and the suffix that carries the retry index.
\<close>

definition display_names :: "AgentConfig \<Rightarrow> pystr \<times> pystr" where
  "display_names cfg =
     (if llm_backend cfg = ascii ''ollama''
      then (ollama_main_model cfg, ollama_advisor_model cfg)
      else (ascii ''DeepSeek'', ascii ''MiniMax''))"

definition role_labels :: "pystr \<Rightarrow> pystr \<Rightarrow> pystr" where
  "role_labels primary_name advisor_name =
     primary_name @ ascii '' ('' @ [20027] @ ascii '') + '' @ advisor_name
       @ ascii '' ('' @ [39038, 38382] @ ascii '')''"

definition retry_suffix :: "int \<Rightarrow> pystr" where
  "retry_suffix i = ascii '' ['' @ [37325, 35797] @ ascii '' '' @ str_int i @ ascii '']''"

text \<open>The lines of a rendered attempt, and the tests that recognise a bullet line.\<close>

definition unknown_strategy :: pystr where
  "unknown_strategy = [26410, 30693, 31574, 30053]"

definition attempt_title :: "nat \<Rightarrow> pystr \<Rightarrow> pystr" where
  "attempt_title i strategy =
     ascii ''### '' @ [23581, 35797] @ ascii '' '' @ str_int (int i) @ [65306] @ strategy @ [10]"

definition count_line :: "int \<Rightarrow> pystr" where
  "count_line n = ascii ''- **'' @ [23581, 35797, 27425, 25968] @ ascii ''**: '' @ str_int n @ [10]"

definition failed_header :: pystr where
  "failed_header =
     ascii ''- **'' @ [24050, 22833, 36133, 30340, 26041, 27861] @ ascii ''**:'' @ [10]"

definition findings_header :: pystr where
  "findings_header = ascii ''- **'' @ [20851, 38190, 21457, 29616] @ ascii ''**:'' @ [10]"

definition failed_line :: "pystr \<Rightarrow> pystr" where
  "failed_line method = ascii ''  - '' @ [10060] @ ascii '' '' @ method @ [10]"

definition finding_line :: "pystr \<Rightarrow> pystr" where
  "finding_line finding = ascii ''  - '' @ [128161] @ ascii '' '' @ finding @ [10]"

definition is_failed_line :: "pystr \<Rightarrow> bool" where
  "is_failed_line part = prefix (ascii ''  - '' @ [10060] @ ascii '' '') part"

definition is_finding_line :: "pystr \<Rightarrow> bool" where
  "is_finding_line part = prefix (ascii ''  - '' @ [128161] @ ascii '' '') part"

text \<open>The parts that the loop body appends for one attempt.\<close>

definition section_of :: "nat \<Rightarrow> 'a attempt \<Rightarrow> pystr list" where
  "section_of i attempt = format_attempt i attempt []"

section \<open>Example inputs\<close>

text \<open>
  A session on the hosted backend: every constructor succeeds, the environment is empty
  and the store is empty before the strategy is built.
\<close>

definition example_world :: world where
  "example_world = \<lparr>environ = Map.empty, ollama_importable = True,
     constructs = (\<lambda>obj. True), ollama_tags = (\<lambda>url. Some [])\<rparr>"

definition example_config :: AgentConfig where
  "example_config = \<lparr>llm_backend = ascii ''api'', llm_api_key = Some (ascii ''key''),
     llm_base_url = None, llm_model_name = ascii ''deepseek-v3.1-terminus'',
     ollama_base_url = ascii ''http://192.168.10.117:11434/'',
     ollama_main_model = ascii ''deepseek-r1:32b'',
     ollama_advisor_model = ascii ''qwen3:latest''\<rparr>"

definition example_state :: state where
  "example_state = \<lparr>objects = [], log = []\<rparr>"

definition example_strategy :: RetryStrategy where
  "example_strategy = \<lparr>config = example_config, main_llm = 0, advisor_llm = 1\<rparr>"

definition example_state_built :: state where
  "example_state_built =
     \<lparr>objects = [ChatDeepSeek None (ascii ''deepseek-v3.1-terminus''),
                 ChatOpenAI (ascii ''https://api.siliconflow.cn/v1'')
                   (ascii ''MiniMaxAI/MiniMax-M2'')],
      log = [[9989, 32, 21019, 24314] @ ascii '' DeepSeek API '' @ [27169, 22411],
             [9989, 32, 21019, 24314] @ ascii '' MiniMax API '' @ [39038, 38382, 27169, 22411],
             [91, 37325, 35797, 31574, 30053, 93, 32, 21021, 22987, 21270, 23436, 25104]]\<rparr>"

text \<open>
  Raw results whose entries are Python strings: \<open>str\<close> of a string is the string
  itself, and a text whose characters outside ASCII are Chinese has no letter to lower
  there. The action log of the scenario, a raw result with eleven failed actions and six
  discovered facts, and a raw result with no key at all.
\<close>

definition str_of_str :: "pystr \<Rightarrow> pystr" where
  "str_of_str s = s"

definition lower_uncased :: "pystr \<Rightarrow> pystr" where
  "lower_uncased s = s"

definition scenario_log :: "pystr list" where
  "scenario_log = [ascii ''tool call succeeded'', ascii ''tool call failed: timeout'',
     [38169, 35823] @ ascii '': invalid input'']"

definition busy_result :: "pystr final_state" where
  "busy_result =
     \<lparr>k_action_history = Some [ascii ''error 1'', ascii ''error 2'', ascii ''error 3'',
         ascii ''error 4'', ascii ''error 5'', ascii ''error 6'', ascii ''error 7'',
         ascii ''error 8'', ascii ''error 9'', ascii ''error 10'', ascii ''error 11''],
      k_messages = Some [],
      k_potential_vulnerabilities = Some [ascii ''f1'', ascii ''f2'', ascii ''f3'',
         ascii ''f4'', ascii ''f5'', ascii ''f6''],
      k_start_time = None\<rparr>"

definition empty_result :: "pystr final_state" where
  "empty_result = \<lparr>k_action_history = None, k_messages = None,
     k_potential_vulnerabilities = None, k_start_time = None\<rparr>"

definition scenario_result :: "pystr final_state" where
  "scenario_result = \<lparr>k_action_history = Some scenario_log, k_messages = None,
     k_potential_vulnerabilities = None, k_start_time = None\<rparr>"

section \<open>Occurrences and lines of the returned text\<close>

text \<open>
  The number of positions of a text at which a given text occurs. A line of a text begins
  at its first character or after a line break, so the number of lines that begin with
  \<open>start\<close> is the number of occurrences of a line break followed by \<open>start\<close> in
  the text with a line break put before it (for a \<open>start\<close> that ends in a line break:
  the number of lines equal to it).
\<close>

fun occurrences :: "pystr \<Rightarrow> pystr \<Rightarrow> nat" where
  "occurrences note [] = (if note = [] then 1 else 0)"
| "occurrences note (c # cs) = (if prefix note (c # cs) then 1 else 0) + occurrences note cs"

definition shown_lines :: "pystr \<Rightarrow> pystr \<Rightarrow> nat" where
  "shown_lines start text = occurrences (10 # start) (10 # text)"

text \<open>The markers that open a failed-method and a key-finding bullet line.\<close>

definition failed_marker :: pystr where
  "failed_marker = ascii ''  - '' @ [10060] @ ascii '' ''"

definition finding_marker :: pystr where
  "finding_marker = ascii ''  - '' @ [128161] @ ascii '' ''"

text \<open>
  The fields of a summary that the formatter writes into the text as they are: the
  strategy label, the first 10 failed methods and the first 5 key findings, each followed
  by a line break. \<open>inside k attempt\<close> is the number of occurrences of \<open>k\<close> in
  these fields, each taken with its line break. The text of a section is the join of its
  parts.
\<close>

definition rendered_fields :: "'a attempt \<Rightarrow> pystr list" where
  "rendered_fields attempt =
     get (k_strategy attempt) unknown_strategy
       # take 10 (get (k_failed_methods attempt) [])
       @ take 5 (get (k_key_findings attempt) [])"

definition inside :: "pystr \<Rightarrow> 'a attempt \<Rightarrow> nat" where
  "inside k attempt =
     sum_list (map (\<lambda>field. occurrences k (field @ [10])) (rendered_fields attempt))"

definition section_text :: "nat \<Rightarrow> 'a attempt \<Rightarrow> pystr" where
  "section_text i attempt = concat (section_of i attempt)"

section \<open>Example summaries\<close>

text \<open>
  Summaries for the formatter: one with twelve failed methods and six findings, a short
  one, and a dictionary with no key at all.
\<close>

definition long_attempt :: "pystr attempt" where
  "long_attempt =
     \<lparr>k_strategy = Some (ascii ''DeepSeek''), k_attempts = Some 7,
      k_failed_methods = Some [ascii ''m1'', ascii ''m2'', ascii ''m3'', ascii ''m4'',
         ascii ''m5'', ascii ''m6'', ascii ''m7'', ascii ''m8'', ascii ''m9'', ascii ''m10'',
         ascii ''m11'', ascii ''m12''],
      k_key_findings = Some [ascii ''f1'', ascii ''f2'', ascii ''f3'', ascii ''f4'',
         ascii ''f5'', ascii ''f6''],
      k_timestamp = None\<rparr>"

definition short_attempt :: "pystr attempt" where
  "short_attempt =
     \<lparr>k_strategy = Some (ascii ''MiniMax''), k_attempts = Some 2,
      k_failed_methods = Some [ascii ''sqlmap failed''], k_key_findings = Some [],
      k_timestamp = None\<rparr>"

definition bare_attempt :: "pystr attempt" where
  "bare_attempt = \<lparr>k_strategy = None, k_attempts = None, k_failed_methods = None,
     k_key_findings = None, k_timestamp = None\<rparr>"

text \<open>
  A summary whose only failed method is an action that quoted the closing note of an
  earlier prompt (the note contains the keyword U+5931 U+8D25, so the recorder keeps such
  an action).
\<close>

definition echo_attempt :: "pystr attempt" where
  "echo_attempt =
     \<lparr>k_strategy = Some (ascii ''DeepSeek''), k_attempts = Some 1,
      k_failed_methods = Some [closing_note], k_key_findings = Some [],
      k_timestamp = None\<rparr>"

text \<open>
  A summary as the recorder returns it for ten actions whose rendering has three lines, the
  second and the third of which look like bullet lines; no key finding.
\<close>

definition noisy_method :: pystr where
  "noisy_method = ascii ''a'' @ [10] @ failed_marker @ ascii ''b'' @ [10] @ finding_marker
     @ ascii ''c''"

definition noisy_attempt :: "pystr attempt" where
  "noisy_attempt =
     \<lparr>k_strategy = Some (ascii ''DeepSeek''), k_attempts = Some 10,
      k_failed_methods = Some [noisy_method, noisy_method, noisy_method, noisy_method,
         noisy_method, noisy_method, noisy_method, noisy_method, noisy_method, noisy_method],
      k_key_findings = Some [], k_timestamp = None\<rparr>"

section \<open>Role assignment\<close>

lemma objects_log_system_event: "objects (log_system_event msg st) = objects st"
  by (simp add: log_system_event_def)

lemma create_ollama_model_alloc:
  "create_ollama_model w b m st = Inr (h, st1) \<Longrightarrow>
     h = length (objects st) \<and> length (objects st1) = Suc (length (objects st))"
  by (auto simp: create_ollama_model_def u_verify_ollama_connection_def new_def Let_def
        objects_log_system_event split: if_splits option.splits sum.splits)

lemma create_model_alloc:
  "create_model w cfg st = Inr (h, st1) \<Longrightarrow>
     h = length (objects st) \<and> length (objects st1) = Suc (length (objects st))"
  by (auto simp: create_model_def u_create_ollama_model_def u_create_api_model_def new_def
        Let_def objects_log_system_event
        dest: create_ollama_model_alloc split: if_splits sum.splits)

lemma create_advisor_model_alloc:
  "create_advisor_model w cfg st = Inr (h, st1) \<Longrightarrow>
     h = length (objects st) \<and> length (objects st1) = Suc (length (objects st))"
  by (auto simp: create_advisor_model_def new_def Let_def objects_log_system_event
        dest: create_ollama_model_alloc split: if_splits sum.splits)

lemma init_handles:
  assumes "init w cfg st = Inr (self, st')"
  shows "main_llm self = length (objects st)"
    and "advisor_llm self = Suc (length (objects st))"
    and "length (objects st') = length (objects st) + 2"
    and "config self = cfg"
  using assms
  by (auto simp: init_def objects_log_system_event split: sum.splits
        dest!: create_model_alloc create_advisor_model_alloc)

lemma get_llm_pair_handles:
  "primary (get_llm_pair self i s) = (if i mod 2 = 0 then main_llm self else advisor_llm self)"
  "advisor (get_llm_pair self i s) = (if i mod 2 = 0 then advisor_llm self else main_llm self)"
  by (simp_all add: get_llm_pair_def primary_def advisor_def Let_def split: prod.splits)

lemma init_example:
  "init example_world example_config example_state = Inr (example_strategy, example_state_built)"
  by (simp add: init_def create_model_def create_advisor_model_def u_create_api_model_def
        new_def log_system_event_def getenv_def Let_def example_world_def example_config_def
        example_state_def example_strategy_def example_state_built_def ascii_def)

text \<open>
  C1. For a strategy built by \<open>init\<close> and a retry index \<open>i \<ge> 0\<close>: an even index makes the
  main handle primary and the advisor handle advisor, an odd index the reverse. The two
  handles are the two that the construction allocated (they are addresses that were free
  before it and are in use after it), they differ, each plays exactly one role, and a second
  call with the same index, in whatever state, returns the same two handles.
\<close>

theorem get_llm_pair_roles:
  assumes "init w cfg st = Inr (self, st')" and "0 \<le> i"
  shows "(even i \<longrightarrow> primary (get_llm_pair self i s) = main_llm self
                    \<and> advisor (get_llm_pair self i s) = advisor_llm self)
       \<and> (odd i \<longrightarrow> primary (get_llm_pair self i s) = advisor_llm self
                   \<and> advisor (get_llm_pair self i s) = main_llm self)
       \<and> length (objects st) \<le> main_llm self \<and> main_llm self < length (objects st')
       \<and> length (objects st) \<le> advisor_llm self \<and> advisor_llm self < length (objects st')
       \<and> main_llm self \<noteq> advisor_llm self
       \<and> primary (get_llm_pair self i s) \<noteq> advisor (get_llm_pair self i s)
       \<and> {primary (get_llm_pair self i s), advisor (get_llm_pair self i s)}
            = {main_llm self, advisor_llm self}
       \<and> (\<forall>s'. primary (get_llm_pair self i s') = primary (get_llm_pair self i s)
              \<and> advisor (get_llm_pair self i s') = advisor (get_llm_pair self i s))"
  using init_handles [OF assms(1)]
  by (auto simp: get_llm_pair_handles even_iff_mod_2_eq_zero)

theorem get_llm_pair_roles_witness:
  "init example_world example_config example_state = Inr (example_strategy, example_state_built)
   \<and> (0::int) \<le> 3
   \<and> primary (get_llm_pair example_strategy 3 example_state_built) = 1
   \<and> advisor (get_llm_pair example_strategy 3 example_state_built) = 0
   \<and> primary (get_llm_pair example_strategy 3 example_state_built)
       \<noteq> advisor (get_llm_pair example_strategy 3 example_state_built)"
proof -
  have built: "init example_world example_config example_state
                 = Inr (example_strategy, example_state_built)"
    by (rule init_example)
  have nonneg: "(0::int) \<le> 3" by simp
  show ?thesis
    using built get_llm_pair_roles [OF built nonneg, of example_state_built]
    by (simp add: example_strategy_def)
qed

lemma get_llm_pair_description_eq:
  "description (get_llm_pair self i s) =
     (if i mod 2 = 0
      then role_labels (fst (display_names (config self))) (snd (display_names (config self)))
             @ (if 0 < i then retry_suffix i else [])
      else role_labels (snd (display_names (config self))) (fst (display_names (config self)))
             @ retry_suffix i)"
  by (simp add: get_llm_pair_def description_def display_names_def role_labels_def
        retry_suffix_def Let_def ascii_def)

lemma sublist_retry_suffix: "sublist (str_int i) (names @ retry_suffix i)"
  unfolding retry_suffix_def sublist_def
  by (rule exI [of _ "names @ ascii '' ['' @ [37325, 35797] @ ascii '' ''"],
      rule exI [of _ "ascii '']''"]) simp

text \<open>
  C7. For a retry index \<open>i \<ge> 0\<close> the description is the display name of the primary
  model with its role label, the display name of the advisor model with its role label
  (the names depend on the backend), followed by the suffix that holds the decimal retry
  index exactly when \<open>i > 0\<close>. For \<open>i > 0\<close> the index therefore occurs in the
  description; for \<open>i = 0\<close> the description is the two labelled names and nothing else.
\<close>

theorem get_llm_pair_description:
  assumes "0 \<le> i"
  shows "description (get_llm_pair self i s) =
           (if even i
            then role_labels (fst (display_names (config self))) (snd (display_names (config self)))
            else role_labels (snd (display_names (config self))) (fst (display_names (config self))))
           @ (if 0 < i then retry_suffix i else [])
       \<and> (0 < i \<longrightarrow> sublist (str_int i) (description (get_llm_pair self i s)))
       \<and> (i = 0 \<longrightarrow> description (get_llm_pair self i s) =
             role_labels (fst (display_names (config self))) (snd (display_names (config self))))"
proof -
  have odd_pos: "0 < i" if "i mod 2 \<noteq> 0"
    using that assms by (cases "i = 0") auto
  have eq: "description (get_llm_pair self i s) =
           (if even i
            then role_labels (fst (display_names (config self))) (snd (display_names (config self)))
            else role_labels (snd (display_names (config self))) (fst (display_names (config self))))
           @ (if 0 < i then retry_suffix i else [])"
    using odd_pos by (auto simp: get_llm_pair_description_eq even_iff_mod_2_eq_zero)
  show ?thesis
    using eq by (auto simp: sublist_retry_suffix)
qed

theorem get_llm_pair_description_witness:
  "(0::int) \<le> 2
   \<and> description (get_llm_pair example_strategy 2 example_state_built) =
       ascii ''DeepSeek ('' @ [20027] @ ascii '') + MiniMax ('' @ [39038, 38382]
         @ ascii '') ['' @ [37325, 35797] @ ascii '' 2]''
   \<and> description (get_llm_pair example_strategy 0 example_state_built) =
       ascii ''DeepSeek ('' @ [20027] @ ascii '') + MiniMax ('' @ [39038, 38382] @ ascii '')''"
proof -
  have two: "(0::int) \<le> 2" and zero: "(0::int) \<le> 0" by simp_all
  show ?thesis
    using get_llm_pair_description [OF two, of example_strategy example_state_built]
          get_llm_pair_description [OF zero, of example_strategy example_state_built]
    by (simp add: example_strategy_def example_config_def display_names_def role_labels_def
          retry_suffix_def str_int_def digits.simps ascii_def)
qed

text \<open>
  C9. \<open>get_llm_pair\<close> has no error branch. For a negative retry count it returns the
  roles given by \<open>retry_count mod 2\<close>, which is 0 or 1 as in Python: \<open>-1\<close> makes the
  advisor handle primary, \<open>-2\<close> the main handle.
\<close>

theorem get_llm_pair_negative:
  assumes "i < 0"
  shows "primary (get_llm_pair self i s) = (if i mod 2 = 0 then main_llm self else advisor_llm self)
       \<and> advisor (get_llm_pair self i s) = (if i mod 2 = 0 then advisor_llm self else main_llm self)
       \<and> i mod 2 \<in> {0, 1}
       \<and> primary (get_llm_pair self (- 1) s) = advisor_llm self
       \<and> advisor (get_llm_pair self (- 1) s) = main_llm self
       \<and> primary (get_llm_pair self (- 2) s) = main_llm self
       \<and> advisor (get_llm_pair self (- 2) s) = advisor_llm self"
  by (auto simp: get_llm_pair_handles)

theorem get_llm_pair_negative_witness:
  "(- 3 :: int) < 0
   \<and> primary (get_llm_pair example_strategy (- 3) example_state_built) = 1
   \<and> advisor (get_llm_pair example_strategy (- 3) example_state_built) = 0"
proof -
  have neg: "(- 3 :: int) < 0" by simp
  show ?thesis
    using get_llm_pair_negative [OF neg, of example_strategy example_state_built]
    by (simp add: example_strategy_def)
qed

section \<open>The attempt recorder\<close>

lemma py_in_sublist: "py_in keyword s \<longleftrightarrow> sublist keyword s"
  by (induction s) (auto simp: sublist_Cons_right)

lemma py_in_iff: "py_in keyword s \<longleftrightarrow> (\<exists>before after. s = before @ keyword @ after)"
  by (simp add: py_in_sublist sublist_def)

lemma failed_loop_filter:
  "failed_loop ul str actions acc =
     acc @ map str (filter (\<lambda>action. list_ex (\<lambda>keyword. py_in keyword (lower ul (str action)))
                                     failure_keywords) actions)"
  by (induction actions arbitrary: acc) simp_all

lemma k_failed_methods_extract:
  "k_failed_methods (extract_attempt_summary ul str fs strategy) =
     Some (failed_loop ul str (get (k_action_history fs) []) [])"
  by (simp add: extract_attempt_summary_def Let_def)

lemma k_key_findings_extract:
  "k_key_findings (extract_attempt_summary ul str fs strategy) =
     Some (map str (get (k_potential_vulnerabilities fs) []))"
  by (simp add: extract_attempt_summary_def Let_def)

lemma k_attempts_extract:
  "k_attempts (extract_attempt_summary ul str fs strategy) =
     Some (int (length (filter has_tool_calls (get (k_messages fs) []))))"
  by (simp add: extract_attempt_summary_def Let_def)

lemma scenario_matches:
  "\<not> list_ex (\<lambda>keyword. py_in keyword (lower ul (ascii ''tool call succeeded''))) failure_keywords"
  "list_ex (\<lambda>keyword. py_in keyword (lower ul (ascii ''tool call failed: timeout''))) failure_keywords"
  by (simp_all add: failure_keywords_def lower_def ascii_lower_def ascii_def)

lemma scenario_matches_chinese:
  "ul ([38169, 35823] @ ascii '': invalid input'') = [38169, 35823] @ ascii '': invalid input''
   \<Longrightarrow> list_ex (\<lambda>keyword. py_in keyword (lower ul ([38169, 35823] @ ascii '': invalid input'')))
         failure_keywords"
  by (simp add: failure_keywords_def lower_def ascii_def)

text \<open>
  C3. The failed methods of a summary are the renderings of exactly those entries of the
  action log whose lowered rendering contains one of the four keywords, in the order of the
  log and with repetitions kept. For the log of the scenario (its Chinese entry has
  nothing to lower) the result is the second and the third entry.
\<close>

theorem extract_failed_methods:
  "k_failed_methods (extract_attempt_summary unicode_lower str final_state strategy) =
     Some (map str (filter
       (\<lambda>action. \<exists>keyword \<in> set failure_keywords.
                   \<exists>before after. lower unicode_lower (str action) = before @ keyword @ after)
       (get (k_action_history final_state) [])))
   \<and> failure_keywords = [[22833, 36133], [38169, 35823], ascii ''error'', ascii ''failed'']
   \<and> (k_action_history final_state = Some scenario_log
        \<and> unicode_lower ([38169, 35823] @ ascii '': invalid input'')
            = [38169, 35823] @ ascii '': invalid input''
      \<longrightarrow> k_failed_methods
            (extract_attempt_summary unicode_lower (\<lambda>s. s) final_state strategy) =
          Some [ascii ''tool call failed: timeout'', [38169, 35823] @ ascii '': invalid input''])"
proof (intro conjI impI)
  show "k_failed_methods (extract_attempt_summary unicode_lower str final_state strategy) =
     Some (map str (filter
       (\<lambda>action. \<exists>keyword \<in> set failure_keywords.
                   \<exists>before after. lower unicode_lower (str action) = before @ keyword @ after)
       (get (k_action_history final_state) [])))"
    by (simp add: k_failed_methods_extract failed_loop_filter list_ex_iff py_in_iff)
next
  show "failure_keywords = [[22833, 36133], [38169, 35823], ascii ''error'', ascii ''failed'']"
    by (simp add: failure_keywords_def)
next
  assume a: "k_action_history final_state = Some scenario_log
        \<and> unicode_lower ([38169, 35823] @ ascii '': invalid input'')
            = [38169, 35823] @ ascii '': invalid input''"
  then show "k_failed_methods
            (extract_attempt_summary unicode_lower (\<lambda>s. s) final_state strategy) =
          Some [ascii ''tool call failed: timeout'', [38169, 35823] @ ascii '': invalid input'']"
    using scenario_matches [of unicode_lower] scenario_matches_chinese [of unicode_lower]
    by (simp add: k_failed_methods_extract get_def scenario_log_def)
qed


theorem extract_failed_methods_witness:
  "(k_action_history scenario_result = Some scenario_log
      \<and> lower_uncased ([38169, 35823] @ ascii '': invalid input'')
          = [38169, 35823] @ ascii '': invalid input'')
   \<and> k_failed_methods (extract_attempt_summary lower_uncased (\<lambda>s. s) scenario_result []) =
       Some [ascii ''tool call failed: timeout'', [38169, 35823] @ ascii '': invalid input'']"
proof -
  have given: "k_action_history scenario_result = Some scenario_log
      \<and> lower_uncased ([38169, 35823] @ ascii '': invalid input'')
          = [38169, 35823] @ ascii '': invalid input''"
    by (simp add: scenario_result_def lower_uncased_def)
  show ?thesis
    using given extract_failed_methods [of lower_uncased "\<lambda>s. s" scenario_result "[]"]
    by blast
qed

text \<open>
  C6. The attempt count of a summary is the number of positions of the message sequence
  whose message has a \<open>tool_calls\<close> attribute holding at least one call.
\<close>

theorem extract_attempt_count:
  "k_attempts (extract_attempt_summary unicode_lower str final_state strategy) =
     Some (int (card {n. n < length (get (k_messages final_state) [])
                        \<and> (\<exists>call calls. tool_calls (get (k_messages final_state) [] ! n)
                                          = Some (call # calls))}))"
proof -
  have "has_tool_calls m \<longleftrightarrow> (\<exists>call calls. tool_calls m = Some (call # calls))" for m :: "'a message"
    by (auto simp: has_tool_calls_def neq_Nil_conv split: option.splits)
  then show ?thesis
    by (simp add: k_attempts_extract length_filter_conv_card)
qed

text \<open>
  C8. The recorder has no error branch, and an absent key degrades as follows: no action
  log gives no failed methods, no messages give the count 0, no discovered facts give no
  key findings, and no start time gives the absent timestamp.
\<close>

theorem extract_absent_fields:
  "(k_action_history final_state = None \<longrightarrow>
      k_failed_methods (extract_attempt_summary unicode_lower str final_state strategy) = Some [])
   \<and> (k_messages final_state = None \<longrightarrow>
      k_attempts (extract_attempt_summary unicode_lower str final_state strategy) = Some 0)
   \<and> (k_potential_vulnerabilities final_state = None \<longrightarrow>
      k_key_findings (extract_attempt_summary unicode_lower str final_state strategy) = Some [])
   \<and> (k_start_time final_state = None \<longrightarrow>
      k_timestamp (extract_attempt_summary unicode_lower str final_state strategy) = None)"
  by (simp add: extract_attempt_summary_def Let_def get_def)

theorem extract_absent_fields_witness:
  "k_action_history empty_result = None \<and> k_messages empty_result = None
   \<and> k_potential_vulnerabilities empty_result = None \<and> k_start_time empty_result = None
   \<and> extract_attempt_summary lower_uncased str_of_str empty_result (ascii ''s'') =
       \<lparr>k_strategy = Some (ascii ''s''), k_attempts = Some 0, k_failed_methods = Some [],
        k_key_findings = Some [], k_timestamp = None\<rparr>"
proof -
  have absent: "k_action_history empty_result = None" "k_messages empty_result = None"
    "k_potential_vulnerabilities empty_result = None" "k_start_time empty_result = None"
    by (simp_all add: empty_result_def)
  have "k_strategy (extract_attempt_summary lower_uncased str_of_str empty_result (ascii ''s''))
          = Some (ascii ''s'')"
    by (simp add: extract_attempt_summary_def Let_def)
  then show ?thesis
    using absent extract_absent_fields [of empty_result lower_uncased str_of_str "ascii ''s''"]
    by (cases "extract_attempt_summary lower_uncased str_of_str empty_result (ascii ''s'')") simp
qed

section \<open>The history formatter\<close>

lemma failed_bullets_eq: "failed_bullets ms parts = parts @ map failed_line ms"
  by (induction ms arbitrary: parts) (simp_all add: failed_line_def)

lemma finding_bullets_eq: "finding_bullets fs parts = parts @ map finding_line fs"
  by (induction fs arbitrary: parts) (simp_all add: finding_line_def)

lemma format_attempt_eq:
  "format_attempt i a parts =
     parts @ [attempt_title i (get (k_strategy a) unknown_strategy),
              count_line (get (k_attempts a) 0)]
       @ (if get (k_failed_methods a) [] \<noteq> []
          then failed_header # map failed_line (take 10 (get (k_failed_methods a) [])) else [])
       @ (if get (k_key_findings a) [] \<noteq> []
          then findings_header # map finding_line (take 5 (get (k_key_findings a) [])) else [])
       @ [[10]]"
  by (simp add: format_attempt_def Let_def failed_bullets_eq finding_bullets_eq
        attempt_title_def count_line_def failed_header_def findings_header_def
        unknown_strategy_def)

lemma format_attempt_append: "format_attempt i a parts = parts @ section_of i a"
  by (simp add: section_of_def format_attempt_eq [of i a parts] format_attempt_eq [of i a "[]"])

lemma format_loop_eq:
  "format_loop i h parts = parts @ concat (map (\<lambda>(j, a). section_of j a) (enumerate i h))"
  by (induction h arbitrary: i parts) (simp_all add: format_attempt_append)

lemma formatted_parts_of_eq:
  "formatted_parts_of h =
     history_heading # concat (map (\<lambda>(j, a). section_of j a) (enumerate 1 h)) @ [closing_note]"
  by (simp add: formatted_parts_of_def format_loop_eq)

lemma is_failed_line_simps:
  "is_failed_line (failed_line m)" "\<not> is_failed_line (finding_line f)"
  "\<not> is_failed_line failed_header" "\<not> is_failed_line findings_header"
  "\<not> is_failed_line (attempt_title i s)" "\<not> is_failed_line (count_line n)"
  "\<not> is_failed_line [10]"
  by (simp_all add: is_failed_line_def failed_line_def finding_line_def failed_header_def
        findings_header_def attempt_title_def count_line_def ascii_def)

lemma is_finding_line_simps:
  "is_finding_line (finding_line f)" "\<not> is_finding_line (failed_line m)"
  "\<not> is_finding_line failed_header" "\<not> is_finding_line findings_header"
  "\<not> is_finding_line (attempt_title i s)" "\<not> is_finding_line (count_line n)"
  "\<not> is_finding_line [10]"
  by (simp_all add: is_finding_line_def failed_line_def finding_line_def failed_header_def
        findings_header_def attempt_title_def count_line_def ascii_def)

lemma filter_map_all: "(\<And>x. P (f x)) \<Longrightarrow> filter P (map f xs) = map f xs"
  by (induction xs) simp_all

lemma filter_map_none: "(\<And>x. \<not> P (f x)) \<Longrightarrow> filter P (map f xs) = []"
  by (induction xs) simp_all

lemma section_failed_lines:
  "filter is_failed_line (section_of i a) = map failed_line (take 10 (get (k_failed_methods a) []))"
  by (simp add: section_of_def format_attempt_eq is_failed_line_simps filter_map_all filter_map_none)

lemma section_finding_lines:
  "filter is_finding_line (section_of i a) = map finding_line (take 5 (get (k_key_findings a) []))"
  by (simp add: section_of_def format_attempt_eq is_finding_line_simps filter_map_all filter_map_none)


lemma section_of_eq:
  "section_of i a =
     [attempt_title i (get (k_strategy a) unknown_strategy), count_line (get (k_attempts a) 0)]
       @ (if get (k_failed_methods a) [] \<noteq> []
          then failed_header # map failed_line (take 10 (get (k_failed_methods a) [])) else [])
       @ (if get (k_key_findings a) [] \<noteq> []
          then findings_header # map finding_line (take 5 (get (k_key_findings a) [])) else [])
       @ [[10]]"
  by (simp add: section_of_def format_attempt_eq)

lemma failed_header_distinct:
  "failed_header \<noteq> attempt_title i s" "failed_header \<noteq> count_line n"
  "failed_header \<noteq> findings_header" "failed_header \<noteq> failed_line m"
  "failed_header \<noteq> finding_line f" "failed_header \<noteq> [10]"
  by (simp_all add: failed_header_def attempt_title_def count_line_def findings_header_def
        failed_line_def finding_line_def ascii_def)

lemma findings_header_distinct:
  "findings_header \<noteq> attempt_title i s" "findings_header \<noteq> count_line n"
  "findings_header \<noteq> failed_header" "findings_header \<noteq> failed_line m"
  "findings_header \<noteq> finding_line f" "findings_header \<noteq> [10]"
  by (simp_all add: failed_header_def attempt_title_def count_line_def findings_header_def
        failed_line_def finding_line_def ascii_def)

lemma failed_header_in_section:
  "failed_header \<in> set (section_of i a) \<longleftrightarrow> get (k_failed_methods a) [] \<noteq> []"
  by (auto simp: section_of_eq failed_header_distinct)

lemma findings_header_in_section:
  "findings_header \<in> set (section_of i a) \<longleftrightarrow> get (k_key_findings a) [] \<noteq> []"
  by (auto simp: section_of_eq findings_header_distinct)

lemma failed_loop_all:
  assumes "\<forall>action \<in> set actions.
             list_ex (\<lambda>keyword. py_in keyword (lower ul (str action))) failure_keywords"
  shows "failed_loop ul str actions [] = map str actions"
  using assms by (simp add: failed_loop_filter)

lemma busy_entries:
  "\<forall>action \<in> set [ascii ''error 1'', ascii ''error 2'', ascii ''error 3'',
         ascii ''error 4'', ascii ''error 5'', ascii ''error 6'', ascii ''error 7'',
         ascii ''error 8'', ascii ''error 9'', ascii ''error 10'', ascii ''error 11''].
     list_ex (\<lambda>keyword. py_in keyword (lower lower_uncased (str_of_str action))) failure_keywords"
  by (simp add: failure_keywords_def lower_def ascii_lower_def ascii_def str_of_str_def)

text \<open>
  A raw result with eleven failed actions and six discovered facts: the summary holds all
  eleven and all six, so the bounds 10 and 5 do not hold for what the recorder returns.
\<close>

theorem extract_bounds_counterexample:
  "\<not> length (get (k_failed_methods
          (extract_attempt_summary lower_uncased str_of_str busy_result [])) []) \<le> 10
   \<and> \<not> length (get (k_key_findings
          (extract_attempt_summary lower_uncased str_of_str busy_result [])) []) \<le> 5"
proof -
  have "k_failed_methods (extract_attempt_summary lower_uncased str_of_str busy_result []) =
          Some (map str_of_str (get (k_action_history busy_result) []))"
    unfolding k_failed_methods_extract
    using busy_entries by (simp only: busy_result_def get_def final_state.simps option.case
                             failed_loop_all)
  then show ?thesis
    by (simp add: k_key_findings_extract get_def busy_result_def)
qed


text \<open>
  C2, as amended. The recorder does not truncate: the summary has one failed method for
  every entry of the action log whose lowered rendering contains a keyword and one key
  finding for every discovered fact. The bounds belong to the formatter: the section it
  renders for such a summary has at most 10 failed-method lines and at most 5 finding
  lines.
\<close>

theorem extract_keeps_all:
  "length (get (k_failed_methods (extract_attempt_summary unicode_lower str final_state strategy)) [])
     = length (filter
         (\<lambda>action. \<exists>keyword \<in> set failure_keywords.
                     sublist keyword (lower unicode_lower (str action)))
         (get (k_action_history final_state) []))
   \<and> length (get (k_key_findings (extract_attempt_summary unicode_lower str final_state strategy)) [])
     = length (get (k_potential_vulnerabilities final_state) [])
   \<and> length (filter is_failed_line
        (section_of i (extract_attempt_summary unicode_lower str final_state strategy))) \<le> 10
   \<and> length (filter is_finding_line
        (section_of i (extract_attempt_summary unicode_lower str final_state strategy))) \<le> 5"
  by (simp add: k_failed_methods_extract k_key_findings_extract failed_loop_filter list_ex_iff
        py_in_sublist get_def section_failed_lines section_finding_lines)

lemma first_char_simps:
  "\<not> prefix [42] history_heading" "\<not> prefix [42] (attempt_title i s)"
  "\<not> prefix [42] (count_line n)" "\<not> prefix [42] failed_header"
  "\<not> prefix [42] findings_header" "\<not> prefix [42] (failed_line m)"
  "\<not> prefix [42] (finding_line f)" "\<not> prefix [42] [10::nat]"
  by (simp_all add: history_heading_def attempt_title_def count_line_def failed_header_def
        findings_header_def failed_line_def finding_line_def ascii_def)

lemma closing_note_first_char: "prefix [42] closing_note"
  by (simp add: closing_note_def ascii_def)

lemma section_first_chars: "part \<in> set (section_of i a) \<Longrightarrow> \<not> prefix [42] part"
  by (auto simp: section_of_eq first_char_simps split: if_splits)

lemma body_first_chars:
  "part \<in> set (history_heading # concat (map (\<lambda>(j, a). section_of j a) (enumerate i h)))
   \<Longrightarrow> \<not> prefix [42] part"
  by (auto simp: first_char_simps dest: section_first_chars)

lemma closing_note_not_in_body:
  "closing_note \<notin> set (history_heading # concat (map (\<lambda>(j, a). section_of j a) (enumerate i h)))"
  using body_first_chars [of closing_note i h] closing_note_first_char by blast

lemma count_list_append_one: "x \<notin> set xs \<Longrightarrow> count_list (xs @ [x]) x = 1"
  by (simp add: count_list_0_iff)

lemma get_None: "get None d = d"
  by (simp add: get_def)

lemma format_attempt_history_eq:
  "h \<noteq> [] \<Longrightarrow> format_attempt_history h =
     concat (history_heading # concat (map (\<lambda>(i, a). section_of i a) (enumerate 1 h)))
       @ closing_note"
  by (simp add: format_attempt_history_def formatted_parts_of_eq)

text \<open>
  C10. The formatter has no error branch. A summary without a strategy label is titled with
  the placeholder "unknown strategy", one without an attempt count shows the count 0, one
  without failed methods or without key findings has neither the header nor a bullet line
  of that list; a summary with no key at all gives a title, a count line and the blank line
  that ends every section, and the text of a history still ends with the closing note.
\<close>

theorem format_missing_fields:
  "(k_strategy a = None \<longrightarrow> prefix [attempt_title i unknown_strategy] (section_of i a))
   \<and> (k_attempts a = None \<longrightarrow>
        prefix [attempt_title i (get (k_strategy a) unknown_strategy), count_line 0]
          (section_of i a))
   \<and> (k_failed_methods a = None \<longrightarrow>
        failed_header \<notin> set (section_of i a) \<and> filter is_failed_line (section_of i a) = [])
   \<and> (k_key_findings a = None \<longrightarrow>
        findings_header \<notin> set (section_of i a) \<and> filter is_finding_line (section_of i a) = [])
   \<and> (k_strategy a = None \<and> k_attempts a = None \<and> k_failed_methods a = None
        \<and> k_key_findings a = None \<longrightarrow>
        section_of i a = [attempt_title i unknown_strategy, count_line 0, [10]])
   \<and> suffix [[10]] (section_of i a)
   \<and> (h \<noteq> [] \<longrightarrow> format_attempt_history h =
         concat (history_heading # concat (map (\<lambda>(i, a). section_of i a) (enumerate 1 h)))
           @ closing_note)
   \<and> unknown_strategy = [26410, 30693, 31574, 30053]
   \<and> count_line 0 = ascii ''- **'' @ [23581, 35797, 27425, 25968] @ ascii ''**: 0'' @ [10]"
proof (intro conjI impI)
  show "suffix [[10]] (section_of i a)"
    unfolding section_of_eq suffix_def by (metis append.assoc)
next
  show "count_line 0 = ascii ''- **'' @ [23581, 35797, 27425, 25968] @ ascii ''**: 0'' @ [10]"
    by (simp add: count_line_def str_int_def digits.simps ascii_def)
qed (auto simp: section_of_eq get_None failed_header_distinct findings_header_distinct
       is_failed_line_simps is_finding_line_simps format_attempt_history_eq
       unknown_strategy_def)

theorem format_missing_fields_witness:
  "k_strategy bare_attempt = None \<and> k_attempts bare_attempt = None
   \<and> k_failed_methods bare_attempt = None \<and> k_key_findings bare_attempt = None
   \<and> [bare_attempt] \<noteq> []
   \<and> format_attempt_history [bare_attempt] =
       history_heading @ attempt_title 1 unknown_strategy @ count_line 0 @ [10] @ closing_note"
proof -
  have absent: "k_strategy bare_attempt = None \<and> k_attempts bare_attempt = None
      \<and> k_failed_methods bare_attempt = None \<and> k_key_findings bare_attempt = None"
    by (simp add: bare_attempt_def)
  have pairs: "enumerate 1 [bare_attempt] = [(1, bare_attempt)]"
    by simp
  show ?thesis
    using absent format_missing_fields [of bare_attempt 1 "[bare_attempt]"]
    by (simp add: pairs)
qed


section \<open>Occurrences in the returned text\<close>

lemma occurrences_Nil: "k \<noteq> [] \<Longrightarrow> occurrences k [] = 0"
  by simp

lemma occurrences_skip:
  assumes "k \<noteq> []" and "hd k \<notin> set pre"
  shows "occurrences k (pre @ s) = occurrences k s"
  using assms(2)
proof (induction pre)
  case Nil
  then show ?case by simp
next
  case (Cons x pre)
  have "\<not> prefix k (x # pre @ s)"
  proof
    assume "prefix k (x # pre @ s)"
    with assms(1) have "hd k = x" by (cases k) auto
    with Cons.prems show False by simp
  qed
  with Cons show ?case by simp
qed

lemma occurrences_absent:
  assumes "c \<in> set k" and "c \<notin> set s"
  shows "occurrences k s = 0"
  using assms(2)
proof (induction s)
  case Nil
  from assms(1) have "k \<noteq> []" by auto
  then show ?case by simp
next
  case (Cons x xs)
  have "\<not> prefix k (x # xs)"
    using assms(1) Cons.prems set_mono_prefix by fastforce
  with Cons show ?case by simp
qed

lemma occurrences_pos_iff: "0 < occurrences k s \<longleftrightarrow> sublist k s"
  by (induction s) (auto simp: sublist_Cons_right)

lemma prefix_line:
  assumes "10 \<notin> set (butlast (tl k))"
  shows "prefix k (x # xs @ 10 # rest) \<longleftrightarrow> prefix k (x # xs @ [10])"
proof
  assume "prefix k (x # xs @ [10])"
  then have "prefix k ((x # xs @ [10]) @ rest)"
    by (rule prefix_prefix)
  then show "prefix k (x # xs @ 10 # rest)" by simp
next
  assume "prefix k (x # xs @ 10 # rest)"
  then have "prefix k ((x # xs @ [10]) @ rest)" by simp
  then consider "prefix k (x # xs @ [10])"
    | us where "k = (x # xs @ [10]) @ us" "prefix us rest"
    unfolding prefix_append by blast
  then show "prefix k (x # xs @ [10])"
  proof cases
    case 1
    then show ?thesis .
  next
    case 2
    show ?thesis
    proof (cases "us = []")
      case True
      with 2 show ?thesis by simp
    next
      case False
      with 2 have "butlast (tl k) = xs @ 10 # butlast us"
        by (simp add: butlast_append)
      with assms show ?thesis by simp
    qed
  qed
qed

lemma occurrences_split:
  assumes "2 \<le> length k" and "10 \<notin> set (butlast (tl k))"
  shows "occurrences k (xs @ 10 # rest) = occurrences k (xs @ [10]) + occurrences k (10 # rest)"
proof (induction xs)
  case Nil
  have "\<not> prefix k [10]"
    using assms(1) prefix_length_le by fastforce
  moreover have "k \<noteq> []" using assms(1) by auto
  ultimately show ?case by simp
next
  case (Cons x xs)
  then show ?case
    using prefix_line [OF assms(2), of x xs rest] by simp
qed

lemma occurrences_concat:
  assumes "2 \<le> length k" and "10 \<notin> set (butlast (tl k))"
    and "\<forall>p \<in> set ps. p \<noteq> [] \<and> last p = 10"
  shows "occurrences k (10 # concat ps) = sum_list (map (\<lambda>p. occurrences k (10 # p)) ps)"
  using assms(3)
proof (induction ps)
  case Nil
  have "\<not> prefix k [10]"
    using assms(1) prefix_length_le by fastforce
  moreover have "k \<noteq> []" using assms(1) by auto
  ultimately show ?case by simp
next
  case (Cons p ps)
  then have p: "p = butlast p @ [10]"
    by (metis append_butlast_last_id list.set_intros(1))
  have "occurrences k (10 # concat (p # ps)) = occurrences k ((10 # butlast p) @ 10 # concat ps)"
    by (subst p) simp
  also have "\<dots> = occurrences k ((10 # butlast p) @ [10]) + occurrences k (10 # concat ps)"
    by (rule occurrences_split [OF assms(1,2)])
  also have "(10 # butlast p) @ [10] = 10 # p"
    using p by simp
  finally show ?case using Cons by simp
qed


lemma digits_chars: "c \<in> set (digits n) \<Longrightarrow> 48 \<le> c \<and> c \<le> 57"
proof (induction n rule: digits.induct)
  case (1 n)
  show ?case
  proof (cases "n < 10")
    case True
    with 1(2) show ?thesis by (subst (asm) digits.simps) simp
  next
    case False
    have "n mod 10 < 10" by simp
    then have "48 \<le> 48 + n mod 10 \<and> 48 + n mod 10 \<le> 57" by linarith
    with 1 False show ?thesis by (subst (asm) (2) digits.simps) auto
  qed
qed

lemma str_int_not_in: "c < 45 \<or> 57 < c \<Longrightarrow> c \<notin> set (str_int n)"
  using digits_chars [of c] by (auto simp: str_int_def)

lemma field_part:
  assumes "k \<noteq> []" and "hd k \<notin> set lit" and "\<not> prefix k (10 # lit @ x @ [10])"
  shows "occurrences k (10 # lit @ x @ [10]) = occurrences k (x @ [10])"
  using assms(3) occurrences_skip [OF assms(1,2), of "x @ [10]"] by simp

lemma field_part_hit:
  assumes "10 \<notin> set lit"
  shows "occurrences (10 # lit) (10 # lit @ x @ [10]) = 1 + occurrences (10 # lit) (x @ [10])"
  using assms occurrences_skip [of "10 # lit" lit "x @ [10]"] by simp

lemma part_ends:
  "history_heading \<noteq> [] \<and> last history_heading = 10"
  "closing_note \<noteq> [] \<and> last closing_note = 10"
  "attempt_title i s \<noteq> [] \<and> last (attempt_title i s) = 10"
  "count_line n \<noteq> [] \<and> last (count_line n) = 10"
  "failed_header \<noteq> [] \<and> last failed_header = 10"
  "findings_header \<noteq> [] \<and> last findings_header = 10"
  "failed_line m \<noteq> [] \<and> last (failed_line m) = 10"
  "finding_line f \<noteq> [] \<and> last (finding_line f) = 10"
  by (simp_all add: history_heading_def closing_note_def attempt_title_def count_line_def
        failed_header_def findings_header_def failed_line_def finding_line_def)

lemma section_parts_end: "\<forall>p \<in> set (section_of i a). p \<noteq> [] \<and> last p = 10"
  by (auto simp: section_of_eq part_ends)

lemma sum_list_shift:
  "(\<And>x. f x = c + g x) \<Longrightarrow> sum_list (map f xs) = c * length xs + (sum_list (map g xs) :: nat)"
  by (induction xs) simp_all

lemma sum_list_concat_map:
  "sum_list (map f (concat (map g xs))) = (sum_list (map (\<lambda>x. sum_list (map f (g x))) xs) :: nat)"
  by (induction xs) simp_all

lemma section_occurrences:
  assumes len: "2 \<le> length k" and mid: "10 \<notin> set (butlast (tl k))"
    and blank: "occurrences k [10, 10] = 0"
    and title: "\<And>i s. occurrences k (10 # attempt_title i s) = occurrences k (s @ [10])"
    and cnt: "\<And>n. occurrences k (10 # count_line n) = 0"
    and fl: "\<And>m. occurrences k (10 # failed_line m) = cF + occurrences k (m @ [10])"
    and gl: "\<And>f. occurrences k (10 # finding_line f) = cG + occurrences k (f @ [10])"
  shows "occurrences k (10 # section_text i a) =
           (if get (k_failed_methods a) [] \<noteq> []
            then occurrences k (10 # failed_header)
                   + cF * min 10 (length (get (k_failed_methods a) [])) else 0)
         + (if get (k_key_findings a) [] \<noteq> []
            then occurrences k (10 # findings_header)
                   + cG * min 5 (length (get (k_key_findings a) [])) else 0)
         + inside k a"
proof -
  have "occurrences k (10 # section_text i a)
          = sum_list (map (\<lambda>p. occurrences k (10 # p)) (section_of i a))"
    unfolding section_text_def
    by (rule occurrences_concat [OF len mid section_parts_end])
  also have "\<dots> =
           (if get (k_failed_methods a) [] \<noteq> []
            then occurrences k (10 # failed_header)
                   + cF * min 10 (length (get (k_failed_methods a) [])) else 0)
         + (if get (k_key_findings a) [] \<noteq> []
            then occurrences k (10 # findings_header)
                   + cG * min 5 (length (get (k_key_findings a) [])) else 0)
         + inside k a"
    by (simp add: section_of_eq inside_def rendered_fields_def title cnt blank o_def
          sum_list_shift [of _ cF, OF fl] sum_list_shift [of _ cG, OF gl] min.commute
          del: occurrences.simps)
  finally show ?thesis .
qed

lemma text_occurrences:
  assumes len: "2 \<le> length k" and mid: "10 \<notin> set (butlast (tl k))" and "h \<noteq> []"
  shows "occurrences k (10 # format_attempt_history h) =
           occurrences k (10 # history_heading)
         + sum_list (map (\<lambda>(i, a). occurrences k (10 # section_text i a)) (enumerate 1 h))
         + occurrences k (10 # closing_note)"
proof -
  have ends: "\<forall>p \<in> set (formatted_parts_of h). p \<noteq> [] \<and> last p = 10"
    using section_parts_end by (auto simp: formatted_parts_of_eq part_ends)
  have sec: "sum_list (map (\<lambda>p. occurrences k (10 # p)) (section_of i a))
               = occurrences k (10 # section_text i a)" for i and a :: "'a attempt"
    unfolding section_text_def
    by (rule occurrences_concat [OF len mid section_parts_end, symmetric])
  have "occurrences k (10 # format_attempt_history h)
          = sum_list (map (\<lambda>p. occurrences k (10 # p)) (formatted_parts_of h))"
    using \<open>h \<noteq> []\<close> occurrences_concat [OF len mid ends]
    by (simp add: format_attempt_history_def del: occurrences.simps)
  also have "\<dots> = occurrences k (10 # history_heading)
         + sum_list (map (\<lambda>(i, a). occurrences k (10 # section_text i a)) (enumerate 1 h))
         + occurrences k (10 # closing_note)"
    by (simp add: formatted_parts_of_eq sum_list_concat_map sec split_def
          del: occurrences.simps)
  finally show ?thesis .
qed

lemma shape_fm:
  "2 \<le> length (10 # failed_marker)" "10 \<notin> set (butlast (tl (10 # failed_marker)))" "occurrences (10 # failed_marker) [10, 10] = 0"
  by (simp_all add: attempt_title_def count_line_def failed_header_def findings_header_def failed_line_def finding_line_def history_heading_def closing_note_def failed_marker_def finding_marker_def ascii_def str_int_not_in)

lemma fixed_fm:
  "occurrences (10 # failed_marker) (10 # history_heading) = 0"
  "occurrences (10 # failed_marker) (10 # failed_header) = 0"
  "occurrences (10 # failed_marker) (10 # findings_header) = 0"
  "occurrences (10 # failed_marker) (10 # closing_note) = 0"
  by (simp_all add: attempt_title_def count_line_def failed_header_def findings_header_def failed_line_def finding_line_def history_heading_def closing_note_def failed_marker_def finding_marker_def ascii_def str_int_not_in)

lemma title_fm:
  "occurrences (10 # failed_marker) (10 # attempt_title i s) = occurrences (10 # failed_marker) (s @ [10])"
  using field_part [of "10 # failed_marker" "ascii ''### '' @ [23581, 35797] @ ascii '' '' @ str_int (int i) @ [65306]" s]
  by (simp add: attempt_title_def count_line_def failed_header_def findings_header_def failed_line_def finding_line_def history_heading_def closing_note_def failed_marker_def finding_marker_def ascii_def str_int_not_in del: occurrences.simps)

lemma count_fm: "occurrences (10 # failed_marker) (10 # count_line n) = 0"
  by (rule occurrences_absent [of 10060]) (simp_all add: attempt_title_def count_line_def failed_header_def findings_header_def failed_line_def finding_line_def history_heading_def closing_note_def failed_marker_def finding_marker_def ascii_def str_int_not_in)

lemma fl_fm:
  "occurrences (10 # failed_marker) (10 # failed_line x) = 1 + occurrences (10 # failed_marker) (x @ [10])"
  using field_part_hit [of "ascii ''  - '' @ [10060] @ ascii '' ''" x]
  by (simp add: attempt_title_def count_line_def failed_header_def findings_header_def failed_line_def finding_line_def history_heading_def closing_note_def failed_marker_def finding_marker_def ascii_def str_int_not_in del: occurrences.simps)

lemma gl_fm:
  "occurrences (10 # failed_marker) (10 # finding_line x) = 0 + occurrences (10 # failed_marker) (x @ [10])"
  using field_part [of "10 # failed_marker" "ascii ''  - '' @ [128161] @ ascii '' ''" x]
  by (simp add: attempt_title_def count_line_def failed_header_def findings_header_def failed_line_def finding_line_def history_heading_def closing_note_def failed_marker_def finding_marker_def ascii_def str_int_not_in del: occurrences.simps)

lemma section_fm:
  "occurrences (10 # failed_marker) (10 # section_text i a) = min 10 (length (get (k_failed_methods a) [])) + inside (10 # failed_marker) a"
  using section_occurrences [OF shape_fm title_fm count_fm fl_fm gl_fm, of i a]
  by (simp add: fixed_fm del: occurrences.simps)

lemma text_fm:
  "h \<noteq> [] \<Longrightarrow> occurrences (10 # failed_marker) (10 # format_attempt_history h) =
     sum_list (map (\<lambda>(i, a). occurrences (10 # failed_marker) (10 # section_text i a)) (enumerate 1 h))"
  using text_occurrences [OF shape_fm(1,2), of h]
  by (simp add: fixed_fm del: occurrences.simps)

lemma shape_gm:
  "2 \<le> length (10 # finding_marker)" "10 \<notin> set (butlast (tl (10 # finding_marker)))" "occurrences (10 # finding_marker) [10, 10] = 0"
  by (simp_all add: attempt_title_def count_line_def failed_header_def findings_header_def failed_line_def finding_line_def history_heading_def closing_note_def failed_marker_def finding_marker_def ascii_def str_int_not_in)

lemma fixed_gm:
  "occurrences (10 # finding_marker) (10 # history_heading) = 0"
  "occurrences (10 # finding_marker) (10 # failed_header) = 0"
  "occurrences (10 # finding_marker) (10 # findings_header) = 0"
  "occurrences (10 # finding_marker) (10 # closing_note) = 0"
  by (simp_all add: attempt_title_def count_line_def failed_header_def findings_header_def failed_line_def finding_line_def history_heading_def closing_note_def failed_marker_def finding_marker_def ascii_def str_int_not_in)

lemma title_gm:
  "occurrences (10 # finding_marker) (10 # attempt_title i s) = occurrences (10 # finding_marker) (s @ [10])"
  using field_part [of "10 # finding_marker" "ascii ''### '' @ [23581, 35797] @ ascii '' '' @ str_int (int i) @ [65306]" s]
  by (simp add: attempt_title_def count_line_def failed_header_def findings_header_def failed_line_def finding_line_def history_heading_def closing_note_def failed_marker_def finding_marker_def ascii_def str_int_not_in del: occurrences.simps)

lemma count_gm: "occurrences (10 # finding_marker) (10 # count_line n) = 0"
  by (rule occurrences_absent [of 128161]) (simp_all add: attempt_title_def count_line_def failed_header_def findings_header_def failed_line_def finding_line_def history_heading_def closing_note_def failed_marker_def finding_marker_def ascii_def str_int_not_in)

lemma fl_gm:
  "occurrences (10 # finding_marker) (10 # failed_line x) = 0 + occurrences (10 # finding_marker) (x @ [10])"
  using field_part [of "10 # finding_marker" "ascii ''  - '' @ [10060] @ ascii '' ''" x]
  by (simp add: attempt_title_def count_line_def failed_header_def findings_header_def failed_line_def finding_line_def history_heading_def closing_note_def failed_marker_def finding_marker_def ascii_def str_int_not_in del: occurrences.simps)

lemma gl_gm:
  "occurrences (10 # finding_marker) (10 # finding_line x) = 1 + occurrences (10 # finding_marker) (x @ [10])"
  using field_part_hit [of "ascii ''  - '' @ [128161] @ ascii '' ''" x]
  by (simp add: attempt_title_def count_line_def failed_header_def findings_header_def failed_line_def finding_line_def history_heading_def closing_note_def failed_marker_def finding_marker_def ascii_def str_int_not_in del: occurrences.simps)

lemma section_gm:
  "occurrences (10 # finding_marker) (10 # section_text i a) = min 5 (length (get (k_key_findings a) [])) + inside (10 # finding_marker) a"
  using section_occurrences [OF shape_gm title_gm count_gm fl_gm gl_gm, of i a]
  by (simp add: fixed_gm del: occurrences.simps)

lemma text_gm:
  "h \<noteq> [] \<Longrightarrow> occurrences (10 # finding_marker) (10 # format_attempt_history h) =
     sum_list (map (\<lambda>(i, a). occurrences (10 # finding_marker) (10 # section_text i a)) (enumerate 1 h))"
  using text_occurrences [OF shape_gm(1,2), of h]
  by (simp add: fixed_gm del: occurrences.simps)

lemma shape_fh:
  "2 \<le> length (10 # failed_header)" "10 \<notin> set (butlast (tl (10 # failed_header)))" "occurrences (10 # failed_header) [10, 10] = 0"
  by (simp_all add: attempt_title_def count_line_def failed_header_def findings_header_def failed_line_def finding_line_def history_heading_def closing_note_def failed_marker_def finding_marker_def ascii_def str_int_not_in)

lemma fixed_fh:
  "occurrences (10 # failed_header) (10 # history_heading) = 0"
  "occurrences (10 # failed_header) (10 # failed_header) = 1"
  "occurrences (10 # failed_header) (10 # findings_header) = 0"
  "occurrences (10 # failed_header) (10 # closing_note) = 0"
  by (simp_all add: attempt_title_def count_line_def failed_header_def findings_header_def failed_line_def finding_line_def history_heading_def closing_note_def failed_marker_def finding_marker_def ascii_def str_int_not_in)

lemma title_fh:
  "occurrences (10 # failed_header) (10 # attempt_title i s) = occurrences (10 # failed_header) (s @ [10])"
  using field_part [of "10 # failed_header" "ascii ''### '' @ [23581, 35797] @ ascii '' '' @ str_int (int i) @ [65306]" s]
  by (simp add: attempt_title_def count_line_def failed_header_def findings_header_def failed_line_def finding_line_def history_heading_def closing_note_def failed_marker_def finding_marker_def ascii_def str_int_not_in del: occurrences.simps)

lemma count_fh: "occurrences (10 # failed_header) (10 # count_line n) = 0"
  by (rule occurrences_absent [of 24050]) (simp_all add: attempt_title_def count_line_def failed_header_def findings_header_def failed_line_def finding_line_def history_heading_def closing_note_def failed_marker_def finding_marker_def ascii_def str_int_not_in)

lemma fl_fh:
  "occurrences (10 # failed_header) (10 # failed_line x) = 0 + occurrences (10 # failed_header) (x @ [10])"
  using field_part [of "10 # failed_header" "ascii ''  - '' @ [10060] @ ascii '' ''" x]
  by (simp add: attempt_title_def count_line_def failed_header_def findings_header_def failed_line_def finding_line_def history_heading_def closing_note_def failed_marker_def finding_marker_def ascii_def str_int_not_in del: occurrences.simps)

lemma gl_fh:
  "occurrences (10 # failed_header) (10 # finding_line x) = 0 + occurrences (10 # failed_header) (x @ [10])"
  using field_part [of "10 # failed_header" "ascii ''  - '' @ [128161] @ ascii '' ''" x]
  by (simp add: attempt_title_def count_line_def failed_header_def findings_header_def failed_line_def finding_line_def history_heading_def closing_note_def failed_marker_def finding_marker_def ascii_def str_int_not_in del: occurrences.simps)

lemma section_fh:
  "occurrences (10 # failed_header) (10 # section_text i a) = (if get (k_failed_methods a) [] \<noteq> [] then 1 else 0) + inside (10 # failed_header) a"
  using section_occurrences [OF shape_fh title_fh count_fh fl_fh gl_fh, of i a]
  by (simp add: fixed_fh del: occurrences.simps)

lemma text_fh:
  "h \<noteq> [] \<Longrightarrow> occurrences (10 # failed_header) (10 # format_attempt_history h) =
     sum_list (map (\<lambda>(i, a). occurrences (10 # failed_header) (10 # section_text i a)) (enumerate 1 h))"
  using text_occurrences [OF shape_fh(1,2), of h]
  by (simp add: fixed_fh del: occurrences.simps)

lemma shape_gh:
  "2 \<le> length (10 # findings_header)" "10 \<notin> set (butlast (tl (10 # findings_header)))" "occurrences (10 # findings_header) [10, 10] = 0"
  by (simp_all add: attempt_title_def count_line_def failed_header_def findings_header_def failed_line_def finding_line_def history_heading_def closing_note_def failed_marker_def finding_marker_def ascii_def str_int_not_in)

lemma fixed_gh:
  "occurrences (10 # findings_header) (10 # history_heading) = 0"
  "occurrences (10 # findings_header) (10 # failed_header) = 0"
  "occurrences (10 # findings_header) (10 # findings_header) = 1"
  "occurrences (10 # findings_header) (10 # closing_note) = 0"
  by (simp_all add: attempt_title_def count_line_def failed_header_def findings_header_def failed_line_def finding_line_def history_heading_def closing_note_def failed_marker_def finding_marker_def ascii_def str_int_not_in)

lemma title_gh:
  "occurrences (10 # findings_header) (10 # attempt_title i s) = occurrences (10 # findings_header) (s @ [10])"
  using field_part [of "10 # findings_header" "ascii ''### '' @ [23581, 35797] @ ascii '' '' @ str_int (int i) @ [65306]" s]
  by (simp add: attempt_title_def count_line_def failed_header_def findings_header_def failed_line_def finding_line_def history_heading_def closing_note_def failed_marker_def finding_marker_def ascii_def str_int_not_in del: occurrences.simps)

lemma count_gh: "occurrences (10 # findings_header) (10 # count_line n) = 0"
  by (rule occurrences_absent [of 20851]) (simp_all add: attempt_title_def count_line_def failed_header_def findings_header_def failed_line_def finding_line_def history_heading_def closing_note_def failed_marker_def finding_marker_def ascii_def str_int_not_in)

lemma fl_gh:
  "occurrences (10 # findings_header) (10 # failed_line x) = 0 + occurrences (10 # findings_header) (x @ [10])"
  using field_part [of "10 # findings_header" "ascii ''  - '' @ [10060] @ ascii '' ''" x]
  by (simp add: attempt_title_def count_line_def failed_header_def findings_header_def failed_line_def finding_line_def history_heading_def closing_note_def failed_marker_def finding_marker_def ascii_def str_int_not_in del: occurrences.simps)

lemma gl_gh:
  "occurrences (10 # findings_header) (10 # finding_line x) = 0 + occurrences (10 # findings_header) (x @ [10])"
  using field_part [of "10 # findings_header" "ascii ''  - '' @ [128161] @ ascii '' ''" x]
  by (simp add: attempt_title_def count_line_def failed_header_def findings_header_def failed_line_def finding_line_def history_heading_def closing_note_def failed_marker_def finding_marker_def ascii_def str_int_not_in del: occurrences.simps)

lemma section_gh:
  "occurrences (10 # findings_header) (10 # section_text i a) = (if get (k_key_findings a) [] \<noteq> [] then 1 else 0) + inside (10 # findings_header) a"
  using section_occurrences [OF shape_gh title_gh count_gh fl_gh gl_gh, of i a]
  by (simp add: fixed_gh del: occurrences.simps)

lemma text_gh:
  "h \<noteq> [] \<Longrightarrow> occurrences (10 # findings_header) (10 # format_attempt_history h) =
     sum_list (map (\<lambda>(i, a). occurrences (10 # findings_header) (10 # section_text i a)) (enumerate 1 h))"
  using text_occurrences [OF shape_gh(1,2), of h]
  by (simp add: fixed_gh del: occurrences.simps)

lemma shape_cn:
  "2 \<le> length closing_note" "10 \<notin> set (butlast (tl closing_note))" "occurrences closing_note [10, 10] = 0"
  by (simp_all add: attempt_title_def count_line_def failed_header_def findings_header_def failed_line_def finding_line_def history_heading_def closing_note_def failed_marker_def finding_marker_def ascii_def str_int_not_in)

lemma fixed_cn:
  "occurrences closing_note (10 # history_heading) = 0"
  "occurrences closing_note (10 # failed_header) = 0"
  "occurrences closing_note (10 # findings_header) = 0"
  "occurrences closing_note (10 # closing_note) = 1"
  by (simp_all add: attempt_title_def count_line_def failed_header_def findings_header_def failed_line_def finding_line_def history_heading_def closing_note_def failed_marker_def finding_marker_def ascii_def str_int_not_in)

lemma title_cn:
  "occurrences closing_note (10 # attempt_title i s) = occurrences closing_note (s @ [10])"
  using field_part [of "closing_note" "ascii ''### '' @ [23581, 35797] @ ascii '' '' @ str_int (int i) @ [65306]" s]
  by (simp add: attempt_title_def count_line_def failed_header_def findings_header_def failed_line_def finding_line_def history_heading_def closing_note_def failed_marker_def finding_marker_def ascii_def str_int_not_in del: occurrences.simps)

lemma count_cn: "occurrences closing_note (10 # count_line n) = 0"
  by (rule occurrences_absent [of 9888]) (simp_all add: attempt_title_def count_line_def failed_header_def findings_header_def failed_line_def finding_line_def history_heading_def closing_note_def failed_marker_def finding_marker_def ascii_def str_int_not_in)

lemma fl_cn:
  "occurrences closing_note (10 # failed_line x) = 0 + occurrences closing_note (x @ [10])"
  using field_part [of "closing_note" "ascii ''  - '' @ [10060] @ ascii '' ''" x]
  by (simp add: attempt_title_def count_line_def failed_header_def findings_header_def failed_line_def finding_line_def history_heading_def closing_note_def failed_marker_def finding_marker_def ascii_def str_int_not_in del: occurrences.simps)

lemma gl_cn:
  "occurrences closing_note (10 # finding_line x) = 0 + occurrences closing_note (x @ [10])"
  using field_part [of "closing_note" "ascii ''  - '' @ [128161] @ ascii '' ''" x]
  by (simp add: attempt_title_def count_line_def failed_header_def findings_header_def failed_line_def finding_line_def history_heading_def closing_note_def failed_marker_def finding_marker_def ascii_def str_int_not_in del: occurrences.simps)

lemma section_cn:
  "occurrences closing_note (10 # section_text i a) = inside closing_note a"
  using section_occurrences [OF shape_cn title_cn count_cn fl_cn gl_cn, of i a]
  by (simp add: fixed_cn del: occurrences.simps)

lemma text_cn:
  "h \<noteq> [] \<Longrightarrow> occurrences closing_note (10 # format_attempt_history h) =
     sum_list (map (\<lambda>(i, a). occurrences closing_note (10 # section_text i a)) (enumerate 1 h)) + 1"
  using text_occurrences [OF shape_cn(1,2), of h]
  by (simp add: fixed_cn del: occurrences.simps)

lemma concat_concat_map: "concat (concat (map f xs)) = concat (map (\<lambda>x. concat (f x)) xs)"
  by (induction xs) simp_all

lemma format_attempt_history_text:
  "h \<noteq> [] \<Longrightarrow> format_attempt_history h =
     history_heading @ concat (map (\<lambda>(i, a). section_text i a) (enumerate 1 h)) @ closing_note"
  by (simp add: format_attempt_history_eq concat_concat_map section_text_def split_def)

lemma sum_list_enumerate:
  "sum_list (map (\<lambda>(i, a). f a) (enumerate n xs)) = (sum_list (map f xs) :: nat)"
  by (induction xs arbitrary: n) simp_all

lemma occurrences_zero_iff: "occurrences k s = 0 \<longleftrightarrow> \<not> sublist k s"
  using occurrences_pos_iff [of k s] by auto

lemma inside_zero_iff:
  "inside k a = 0 \<longleftrightarrow> (\<forall>field \<in> set (rendered_fields a). \<not> sublist k (field @ [10]))"
  by (simp add: inside_def occurrences_zero_iff del: occurrences.simps)

lemma closing_note_lead: "occurrences closing_note (10 # text) = occurrences closing_note text"
  by (simp add: closing_note_def ascii_def)

lemma occurrences_closing_note_text:
  assumes "h \<noteq> []"
  shows "occurrences closing_note (format_attempt_history h)
           = 1 + sum_list (map (inside closing_note) h)"
proof -
  have "occurrences closing_note (format_attempt_history h)
          = occurrences closing_note (10 # format_attempt_history h)"
    by (simp only: closing_note_lead)
  also have "\<dots> = sum_list (map (\<lambda>(i, a). inside closing_note a) (enumerate 1 h)) + 1"
    by (simp only: text_cn [OF assms] section_cn)
  finally show ?thesis
    by (simp add: sum_list_enumerate)
qed

lemma single_line_inside:
  assumes "start \<noteq> []" and "\<forall>field \<in> set (rendered_fields a). 10 \<notin> set field"
  shows "inside (10 # start) a = 0"
proof -
  have "occurrences (10 # start) (field @ [10]) = 0" if "10 \<notin> set field" for field
    using that occurrences_skip [of "10 # start" field "[10]"] assms(1) by simp
  with assms(2) show ?thesis
    by (simp add: inside_def del: occurrences.simps)
qed

lemma no_sign_no_quote: "9888 \<notin> set field \<Longrightarrow> \<not> sublist closing_note (field @ [10])"
proof
  assume "9888 \<notin> set field" and "sublist closing_note (field @ [10])"
  then have "set closing_note \<subseteq> set (field @ [10])"
    using set_mono_sublist by blast
  moreover have "9888 \<in> set closing_note"
    by (simp add: closing_note_def)
  ultimately show False
    using \<open>9888 \<notin> set field\<close> by auto
qed

text \<open>
  C4, as amended. The formatter returns the empty text for the empty history. For any other
  history the parts it joins are the heading, the sections of the attempts and, last, the
  closing note: the note is a part exactly once, after all sections. The number of
  occurrences of the note in the text is one more than the number of its occurrences in
  the rendered fields of the summaries, each field taken with the line break that follows
  it; so the text holds the note exactly once if and only if no rendered field with its
  line break contains the note.
\<close>

theorem format_closing_note:
  "format_attempt_history [] = []
   \<and> (h \<noteq> [] \<longrightarrow>
        formatted_parts_of h =
          (history_heading # concat (map (\<lambda>(i, a). section_of i a) (enumerate 1 h)))
            @ [closing_note]
      \<and> format_attempt_history h =
          concat (history_heading # concat (map (\<lambda>(i, a). section_of i a) (enumerate 1 h)))
            @ closing_note
      \<and> count_list (formatted_parts_of h) closing_note = 1
      \<and> occurrences closing_note (format_attempt_history h)
          = 1 + sum_list (map (inside closing_note) h)
      \<and> (occurrences closing_note (format_attempt_history h) = 1
           \<longleftrightarrow> (\<forall>a \<in> set h. \<forall>field \<in> set (rendered_fields a).
                  \<not> sublist closing_note (field @ [10]))))"
proof (intro conjI impI)
  show "format_attempt_history [] = []"
    by (simp add: format_attempt_history_def)
next
  show "formatted_parts_of h =
          (history_heading # concat (map (\<lambda>(i, a). section_of i a) (enumerate 1 h)))
            @ [closing_note]"
    by (simp add: formatted_parts_of_eq)
next
  assume "h \<noteq> []"
  then show "format_attempt_history h =
          concat (history_heading # concat (map (\<lambda>(i, a). section_of i a) (enumerate 1 h)))
            @ closing_note"
    by (rule format_attempt_history_eq)
next
  have "formatted_parts_of h =
          (history_heading # concat (map (\<lambda>(i, a). section_of i a) (enumerate 1 h)))
            @ [closing_note]"
    by (simp add: formatted_parts_of_eq)
  moreover have "count_list
          ((history_heading # concat (map (\<lambda>(i, a). section_of i a) (enumerate 1 h)))
             @ [closing_note]) closing_note = 1"
    using closing_note_not_in_body [of 1 h] by (rule count_list_append_one)
  ultimately show "count_list (formatted_parts_of h) closing_note = 1"
    by (simp only:)
next
  assume "h \<noteq> []"
  then show "occurrences closing_note (format_attempt_history h)
          = 1 + sum_list (map (inside closing_note) h)"
    by (rule occurrences_closing_note_text)
next
  assume "h \<noteq> []"
  then have "occurrences closing_note (format_attempt_history h)
          = 1 + sum_list (map (inside closing_note) h)"
    by (rule occurrences_closing_note_text)
  then show "occurrences closing_note (format_attempt_history h) = 1
           \<longleftrightarrow> (\<forall>a \<in> set h. \<forall>field \<in> set (rendered_fields a).
                  \<not> sublist closing_note (field @ [10]))"
    by (simp add: inside_zero_iff)
qed

lemma example_fields:
  "rendered_fields long_attempt =
     [ascii ''DeepSeek'', ascii ''m1'', ascii ''m2'', ascii ''m3'', ascii ''m4'', ascii ''m5'',
      ascii ''m6'', ascii ''m7'', ascii ''m8'', ascii ''m9'', ascii ''m10'', ascii ''f1'',
      ascii ''f2'', ascii ''f3'', ascii ''f4'', ascii ''f5'']"
  "rendered_fields short_attempt = [ascii ''MiniMax'', ascii ''sqlmap failed'']"
  by (simp_all add: rendered_fields_def long_attempt_def short_attempt_def get_def)

theorem format_closing_note_witness:
  "[long_attempt, short_attempt] \<noteq> []
   \<and> count_list (formatted_parts_of [long_attempt, short_attempt]) closing_note = 1
   \<and> occurrences closing_note (format_attempt_history [long_attempt, short_attempt]) = 1"
proof -
  have nonempty: "[long_attempt, short_attempt] \<noteq> []"
    by simp
  have "\<forall>a \<in> set [long_attempt, short_attempt]. \<forall>field \<in> set (rendered_fields a).
          9888 \<notin> set field"
    by (simp add: example_fields ascii_def)
  then have plain: "\<forall>a \<in> set [long_attempt, short_attempt]. \<forall>field \<in> set (rendered_fields a).
          \<not> sublist closing_note (field @ [10])"
    using no_sign_no_quote by blast
  show ?thesis
    using nonempty plain format_closing_note [of "[long_attempt, short_attempt]"] by blast
qed


lemma echo_text:
  "format_attempt_history [echo_attempt] =
     history_heading @ attempt_title 1 (ascii ''DeepSeek'') @ count_line 1 @ failed_header
       @ failed_line closing_note @ [10] @ closing_note"
  by (simp add: format_attempt_history_eq section_of_eq echo_attempt_def get_def closing_note_def)

text \<open>
  A history whose single summary lists the closing note itself as a failed method: the
  text holds the note twice, once in the bullet line and once at the end.
\<close>

theorem format_closing_note_counterexample:
  "[echo_attempt] \<noteq> []
   \<and> occurrences closing_note (format_attempt_history [echo_attempt]) = 2"
  unfolding echo_text
  by (simp add: history_heading_def attempt_title_def count_line_def failed_header_def
        failed_line_def closing_note_def str_int_def digits.simps ascii_def)

lemma shown_lines_section:
  "shown_lines failed_marker (section_text i a)
     = min 10 (length (get (k_failed_methods a) [])) + inside (10 # failed_marker) a"
  "shown_lines finding_marker (section_text i a)
     = min 5 (length (get (k_key_findings a) [])) + inside (10 # finding_marker) a"
  "shown_lines failed_header (section_text i a)
     = (if get (k_failed_methods a) [] \<noteq> [] then 1 else 0) + inside (10 # failed_header) a"
  "shown_lines findings_header (section_text i a)
     = (if get (k_key_findings a) [] \<noteq> [] then 1 else 0) + inside (10 # findings_header) a"
  unfolding shown_lines_def by (rule section_fm section_gm section_fh section_gh)+

lemma shown_lines_text:
  assumes "h \<noteq> []"
  shows "shown_lines failed_marker (format_attempt_history h)
           = sum_list (map (\<lambda>(i, a). shown_lines failed_marker (section_text i a))
               (enumerate 1 h))"
    and "shown_lines finding_marker (format_attempt_history h)
           = sum_list (map (\<lambda>(i, a). shown_lines finding_marker (section_text i a))
               (enumerate 1 h))"
  unfolding shown_lines_def using assms by (rule text_fm text_gm)+

text \<open>
  C5, as amended. The text of a non-empty history is the heading, the texts of the sections
  in order and the closing note, and the bullet lines of the text are those of its
  sections. For the section of an attempt the formatter appends one failed-method bullet
  line for each of the first 10 failed methods and one key-finding bullet line for each of
  the first 5 key findings, and the header of a list exactly when the list is not empty.
  The fields are written as they are, so the number of lines of the section's text that
  begin with the failed-method marker is the smaller of 10 and the number of failed methods
  plus the number of such lines that the rendered fields hold after a line break of their
  own; likewise for the key-finding marker with 5, and for the two headers with one or
  zero. When the fields hold no such line, a section shows at most 10 failed-method and at
  most 5 key-finding bullet lines; for twelve failed methods it shows exactly 10
  failed-method bullet lines if and only if the fields hold no such line.
\<close>

theorem format_bullet_bounds:
  "(h \<noteq> [] \<longrightarrow>
      format_attempt_history h =
        history_heading @ concat (map (\<lambda>(i, a). section_text i a) (enumerate 1 h))
          @ closing_note
    \<and> shown_lines failed_marker (format_attempt_history h)
        = sum_list (map (\<lambda>(i, a). shown_lines failed_marker (section_text i a))
            (enumerate 1 h))
    \<and> shown_lines finding_marker (format_attempt_history h)
        = sum_list (map (\<lambda>(i, a). shown_lines finding_marker (section_text i a))
            (enumerate 1 h)))
   \<and> filter is_failed_line (section_of i a)
       = map failed_line (take 10 (get (k_failed_methods a) []))
   \<and> filter is_finding_line (section_of i a)
       = map finding_line (take 5 (get (k_key_findings a) []))
   \<and> (failed_header \<in> set (section_of i a) \<longleftrightarrow> get (k_failed_methods a) [] \<noteq> [])
   \<and> (findings_header \<in> set (section_of i a) \<longleftrightarrow> get (k_key_findings a) [] \<noteq> [])
   \<and> shown_lines failed_marker (section_text i a)
       = min 10 (length (get (k_failed_methods a) [])) + inside (10 # failed_marker) a
   \<and> shown_lines finding_marker (section_text i a)
       = min 5 (length (get (k_key_findings a) [])) + inside (10 # finding_marker) a
   \<and> shown_lines failed_header (section_text i a)
       = (if get (k_failed_methods a) [] \<noteq> [] then 1 else 0) + inside (10 # failed_header) a
   \<and> shown_lines findings_header (section_text i a)
       = (if get (k_key_findings a) [] \<noteq> [] then 1 else 0) + inside (10 # findings_header) a
   \<and> (inside k a = 0
        \<longleftrightarrow> (\<forall>field \<in> set (rendered_fields a). \<not> sublist k (field @ [10])))
   \<and> (inside (10 # failed_marker) a = 0 \<longrightarrow>
        shown_lines failed_marker (section_text i a) \<le> 10)
   \<and> (length (get (k_failed_methods a) []) = 12 \<longrightarrow>
        (shown_lines failed_marker (section_text i a) = 10
           \<longleftrightarrow> inside (10 # failed_marker) a = 0))
   \<and> (inside (10 # finding_marker) a = 0 \<longrightarrow>
        shown_lines finding_marker (section_text i a) \<le> 5)"
proof (intro conjI impI)
  assume "h \<noteq> []"
  then show "format_attempt_history h =
        history_heading @ concat (map (\<lambda>(i, a). section_text i a) (enumerate 1 h))
          @ closing_note"
    by (rule format_attempt_history_text)
next
  assume "h \<noteq> []"
  then show "shown_lines failed_marker (format_attempt_history h)
        = sum_list (map (\<lambda>(i, a). shown_lines failed_marker (section_text i a))
            (enumerate 1 h))"
    by (rule shown_lines_text)
next
  assume "h \<noteq> []"
  then show "shown_lines finding_marker (format_attempt_history h)
        = sum_list (map (\<lambda>(i, a). shown_lines finding_marker (section_text i a))
            (enumerate 1 h))"
    by (rule shown_lines_text)
next
  show "inside k a = 0
        \<longleftrightarrow> (\<forall>field \<in> set (rendered_fields a). \<not> sublist k (field @ [10]))"
    by (rule inside_zero_iff)
qed (simp_all add: section_text_def section_failed_lines section_finding_lines
       failed_header_in_section findings_header_in_section
       shown_lines_section [unfolded section_text_def])

lemma single_line_examples:
  "\<forall>field \<in> set (rendered_fields long_attempt). 10 \<notin> set field"
  "\<forall>field \<in> set (rendered_fields short_attempt). 10 \<notin> set field"
  by (simp_all add: example_fields ascii_def)

theorem format_bullet_bounds_witness:
  "[long_attempt, short_attempt] \<noteq> []
   \<and> length (get (k_failed_methods long_attempt) []) = 12
   \<and> inside (10 # failed_marker) long_attempt = 0
   \<and> inside (10 # finding_marker) long_attempt = 0
   \<and> shown_lines failed_marker (section_text 1 long_attempt) = 10
   \<and> shown_lines finding_marker (section_text 1 long_attempt) = 5
   \<and> shown_lines failed_marker (format_attempt_history [long_attempt, short_attempt]) = 11"
proof -
  have nonempty: "[long_attempt, short_attempt] \<noteq> []"
    by simp
  have twelve: "length (get (k_failed_methods long_attempt) []) = 12"
    and six: "length (get (k_key_findings long_attempt) []) = 6"
    by (simp_all add: long_attempt_def get_def)
  have one: "length (get (k_failed_methods short_attempt) []) = 1"
    by (simp add: short_attempt_def get_def)
  have plain: "inside (10 # failed_marker) long_attempt = 0"
    "inside (10 # finding_marker) long_attempt = 0"
    "inside (10 # failed_marker) short_attempt = 0"
    by (rule single_line_inside, simp add: failed_marker_def finding_marker_def,
        rule single_line_examples)+
  have pairs: "enumerate 1 [long_attempt, short_attempt] = [(1, long_attempt), (2, short_attempt)]"
    by (simp add: enumerate_eq_zip upt_rec numeral_2_eq_2)
  have "shown_lines failed_marker (section_text 1 long_attempt)
          = min 10 (length (get (k_failed_methods long_attempt) []))
            + inside (10 # failed_marker) long_attempt"
    and "shown_lines finding_marker (section_text 1 long_attempt)
          = min 5 (length (get (k_key_findings long_attempt) []))
            + inside (10 # finding_marker) long_attempt"
    using format_bullet_bounds [of "[long_attempt, short_attempt]" 1 long_attempt "[]"]
    by blast+
  then have long: "shown_lines failed_marker (section_text 1 long_attempt) = 10"
    "shown_lines finding_marker (section_text 1 long_attempt) = 5"
    by (simp_all add: twelve six plain)
  have "shown_lines failed_marker (section_text 2 short_attempt)
          = min 10 (length (get (k_failed_methods short_attempt) []))
            + inside (10 # failed_marker) short_attempt"
    using format_bullet_bounds [of "[long_attempt, short_attempt]" 2 short_attempt "[]"]
    by blast
  then have short: "shown_lines failed_marker (section_text 2 short_attempt) = 1"
    by (simp add: one plain)
  have "shown_lines failed_marker (format_attempt_history [long_attempt, short_attempt])
          = sum_list (map (\<lambda>(i, a). shown_lines failed_marker (section_text i a))
              (enumerate 1 [long_attempt, short_attempt]))"
    using nonempty format_bullet_bounds [of "[long_attempt, short_attempt]" 1 long_attempt "[]"]
    by blast
  then have "shown_lines failed_marker (format_attempt_history [long_attempt, short_attempt]) = 11"
    by (simp only: pairs list.map prod.case sum_list.Cons sum_list.Nil long short)
  with long nonempty twelve plain show ?thesis
    by simp
qed

lemma noisy_method_lines:
  "occurrences (10 # failed_marker) (noisy_method @ [10]) = 1"
  "occurrences (10 # finding_marker) (noisy_method @ [10]) = 1"
  by (simp_all add: noisy_method_def failed_marker_def finding_marker_def ascii_def)

lemma noisy_strategy_lines:
  "occurrences (10 # failed_marker) (ascii ''DeepSeek'' @ [10]) = 0"
  "occurrences (10 # finding_marker) (ascii ''DeepSeek'' @ [10]) = 0"
  by (simp_all add: failed_marker_def finding_marker_def ascii_def)

lemma noisy_inside:
  "inside (10 # failed_marker) noisy_attempt = 10"
  "inside (10 # finding_marker) noisy_attempt = 10"
  by (simp_all add: inside_def rendered_fields_def noisy_attempt_def get_def
        noisy_method_lines noisy_strategy_lines del: occurrences.simps)

text \<open>
  A history of one summary with ten failed methods of three lines each and no key finding:
  the returned text shows twenty lines that begin with the failed-method marker and ten
  that begin with the key-finding marker.
\<close>

theorem format_bullet_bounds_counterexample:
  "[noisy_attempt] \<noteq> []
   \<and> length (get (k_failed_methods noisy_attempt) []) = 10
   \<and> get (k_key_findings noisy_attempt) [] = []
   \<and> shown_lines failed_marker (format_attempt_history [noisy_attempt]) = 20
   \<and> shown_lines finding_marker (format_attempt_history [noisy_attempt]) = 10"
proof -
  have fields: "length (get (k_failed_methods noisy_attempt) []) = 10"
    "get (k_key_findings noisy_attempt) [] = []"
    by (simp_all add: noisy_attempt_def get_def)
  have "shown_lines failed_marker (format_attempt_history [noisy_attempt])
          = shown_lines failed_marker (section_text 1 noisy_attempt)"
    "shown_lines finding_marker (format_attempt_history [noisy_attempt])
          = shown_lines finding_marker (section_text 1 noisy_attempt)"
    by (simp_all add: shown_lines_text)
  with fields show ?thesis
    by (simp add: shown_lines_section noisy_inside)
qed

end
